theory Spec2Isabelle
  imports Main "HOL-Library.Sublist"
begin

section \<open>JavaScript values\<close>

text \<open>
  The handlers are TypeScript whose request bodies are typed \<open>any\<close>: a field of a body
  can hold whatever JSON (or the multipart parser) delivers. Values are therefore modelled
  as a datatype of JSON values extended by \<open>undefined\<close>. Numbers are modelled as integers
  (JSON numbers with a fraction are outside the model, and the text of a number is
  modelled for the safe integers, see \<open>safe_numbers\<close>). A string is a list of bytes, the UTF-8 encoding of the JavaScript string:
  every character the handlers test or replace is ASCII, and no byte of a multi-byte
  UTF-8 sequence is ASCII, so the per-character replacements agree with the ones on
  UTF-16 code units.
\<close>

datatype jsval =
    JUndefined
  | JNull
  | JBool bool
  | JNum int
  | JStr string
  | JArr "jsval list"
  | JObj "(string \<times> jsval) list"

text \<open>An exception value; only its \<open>message\<close> property is ever read.\<close>

datatype exn = Error (message: string)

text \<open>\<open>!x\<close> is \<open>\<not> truthy x\<close>.\<close>

fun truthy :: "jsval \<Rightarrow> bool" where
  "truthy JUndefined = False"
| "truthy JNull = False"
| "truthy (JBool b) = b"
| "truthy (JNum n) = (n \<noteq> 0)"
| "truthy (JStr s) = (s \<noteq> [])"
| "truthy (JArr xs) = True"
| "truthy (JObj kvs) = True"

text \<open>\<open>a || b\<close>\<close>

definition or_else :: "jsval \<Rightarrow> jsval \<Rightarrow> jsval" where
  "or_else a b = (if truthy a then a else b)"

fun nullish :: "jsval \<Rightarrow> bool" where
  "nullish JUndefined = True"
| "nullish JNull = True"
| "nullish v = False"

text \<open>
  \<open>v.k\<close> for a value \<open>v\<close> that is neither \<open>null\<close> nor \<open>undefined\<close> (where it is, the
  read throws, and the handlers below say so at each place this can happen). The
  keys read by the handlers are field names of the forms; strings, numbers, booleans
  and arrays have no property of such a name. An object holds each key once; the
  first binding of the association list is the one read.
\<close>

fun field :: "jsval \<Rightarrow> string \<Rightarrow> jsval" where
  "field (JObj kvs) k = (case map_of kvs k of None \<Rightarrow> JUndefined | Some v \<Rightarrow> v)"
| "field v k = JUndefined"

text \<open>\<open>Array.prototype.join\<close> on strings.\<close>

fun join :: "string \<Rightarrow> string list \<Rightarrow> string" where
  "join sep [] = []"
| "join sep [x] = x"
| "join sep (x # y # ys) = x @ sep @ join sep (y # ys)"

fun digits :: "nat \<Rightarrow> string" where
  "digits n = (if n < 10 then [char_of (48 + n)]
               else digits (n div 10) @ [char_of (48 + n mod 10)])"

text \<open>
  \<open>String(v)\<close>, which is also what a template literal \<open>${v}\<close> interpolates. An array is
  its elements joined by commas, \<open>null\<close> and \<open>undefined\<close> elements giving the empty string.
\<close>

fun toString :: "jsval \<Rightarrow> string" where
  "toString JUndefined = ''undefined''"
| "toString JNull = ''null''"
| "toString (JBool b) = (if b then ''true'' else ''false'')"
| "toString (JNum n) = (if n < 0 then ''-'' @ digits (nat (- n)) else digits (nat n))"
| "toString (JStr s) = s"
| "toString (JArr xs) =
     join '','' (map (\<lambda>x. case x of JUndefined \<Rightarrow> [] | JNull \<Rightarrow> [] | _ \<Rightarrow> toString x) xs)"
| "toString (JObj kvs) = ''[object Object]''"

text \<open>
  The digits above are \<open>String(n)\<close> for the safe integers, those of magnitude below
  \<open>2^53\<close>: \<open>JSON.parse\<close> reads such a number exactly, and JavaScript prints it digit by
  digit. A larger number is rounded to a double and, from \<open>10^21\<close> on, printed with an
  exponent; the statements below that speak of the text of a value are made for values
  whose numbers are safe integers.
\<close>

definition safe_integer :: "int \<Rightarrow> bool" where
  "safe_integer n = (- 9007199254740991 \<le> n \<and> n \<le> 9007199254740991)"

fun safe_numbers :: "jsval \<Rightarrow> bool" where
  "safe_numbers (JNum n) = safe_integer n"
| "safe_numbers (JArr xs) = list_all safe_numbers xs"
| "safe_numbers v = True"

text \<open>\<open>xs.join(sep)\<close> on an array of values.\<close>

definition join_vals :: "string \<Rightarrow> jsval list \<Rightarrow> string" where
  "join_vals sep xs =
     join sep (map (\<lambda>x. case x of JUndefined \<Rightarrow> [] | JNull \<Rightarrow> [] | _ \<Rightarrow> toString x) xs)"

text \<open>
  \<open>String(v)\<close> throws a TypeError for an object that has a property \<open>toString\<close> of its own
  (in a JSON value that property is no function, and the inherited \<open>valueOf\<close> returns
  the object itself), and for an array with such an element; every other value
  converts. \<open>toString\<close> above is the text of the values that convert. A template that
  interpolates a value that does not convert throws this error.
\<close>

fun printable :: "jsval \<Rightarrow> bool" where
  "printable (JObj kvs) = (map_of kvs ''toString'' = None)"
| "printable (JArr xs) = list_all printable xs"
| "printable v = True"

definition conversion_error :: exn where
  "conversion_error = Error ''Cannot convert object to primitive value''"

section \<open>Symbols outside ASCII, as UTF-8\<close>

definition emdash :: string where
  "emdash = [CHR 0xE2, CHR 0x80, CHR 0x94]"

definition envelope_icon :: string where
  "envelope_icon = [CHR 0xF0, CHR 0x9F, CHR 0x93, CHR 0xA9]"

definition receipt_icon :: string where
  "receipt_icon = [CHR 0xF0, CHR 0x9F, CHR 0xA7, CHR 0xBE]"

definition cross_icon :: string where
  "cross_icon = [CHR 0xE2, CHR 0x9D, CHR 0x8C]"

definition warning_icon :: string where
  "warning_icon = [CHR 0xE2, CHR 0x9A, CHR 0xA0, CHR 0xEF, CHR 0xB8, CHR 0x8F]"

section \<open>The helpers \<open>esc\<close> and \<open>nl2br\<close> (part\_000, lines 8 to 18)\<close>

definition metachars :: "char list" where
  "metachars = [CHR ''&'', CHR ''<'', CHR ''>'', CHR 0x22, CHR 0x27]"

definition entities :: "(char \<times> string) list" where
  "entities =
     [(CHR ''&'', ''&amp;''), (CHR ''<'', ''&lt;''), (CHR ''>'', ''&gt;''),
      (CHR 0x22, ''&quot;''), (CHR 0x27, ''&#39;'')]"

text \<open>
  The callback of the replacement: the table entry of the matched character, or the
  character itself where the table has none.
\<close>

definition esc_char :: "char \<Rightarrow> string" where
  "esc_char c =
     (if c \<in> set metachars
      then (case map_of entities c of Some e \<Rightarrow> e | None \<Rightarrow> [c])
      else [c])"

text \<open>
  \<open>esc\<close> has the default parameter \<open>""\<close>, which applies to \<open>undefined\<close> only, and
  coerces with \<open>String\<close>.
\<close>

definition esc :: "jsval \<Rightarrow> string" where
  "esc s = concat (map esc_char (toString (if s = JUndefined then JStr [] else s)))"

text \<open>
  \<open>nl2br\<close> is only ever applied to a result of \<open>esc\<close>, a string, on which its default
  parameter and its \<open>String\<close> coercion do nothing.
\<close>

definition nl2br :: "string \<Rightarrow> string" where
  "nl2br s = concat (map (\<lambda>c. if c = CHR 0x0A then ''<br>'' else [c]) s)"

section \<open>Requests, mails and outcomes\<close>

record upload_file =
  filepath :: string
  originalFilename :: "string option"
  mimetype :: "string option"

text \<open>
  What the multipart parser reports under the file field \<open>attachment\<close>: nothing, one
  file object, or an array of file objects.
\<close>

datatype upload = NoUpload | OneFile upload_file | Files "upload_file list"

text \<open>
  A request carries its method, its \<open>content-type\<close> header, the body as the platform's
  body parser presents it (\<open>req.body\<close>, read by the handlers that keep the parser on), the
  raw body text (read by the handlers that turn the parser off) and the result of the
  multipart parser on it: the fields and the \<open>attachment\<close> entry of the files, or the
  error the parser rejects with.
\<close>

record request =
  http_method :: string
  contentType :: "string option"
  body :: jsval
  rawBody :: string
  form :: "exn + ((string \<times> jsval) list \<times> upload)"

record attachment =
  filename :: "string option"
  content :: string

text \<open>
  The message handed to the transport. The sender and recipient addresses come from the
  process configuration alone and are not modelled.
\<close>

record mail =
  subject :: string
  html :: string
  attachments :: "attachment list"

text \<open>Operator log lines that carry an exception.\<close>

datatype logline = ConsoleError string exn | ConsoleWarn string exn

text \<open>
  What one invocation does: the status and JSON body of the response (\<open>None\<close> for a
  response ended without a body), the messages passed to \<open>sendMail\<close>, in order, and the
  exceptions logged. Informational \<open>console.log\<close> lines are not modelled.
\<close>

record outcome =
  status :: nat
  reply :: "jsval option"
  sent :: "mail list"
  logged :: "logline list"

text \<open>
  The collaborators: the mail transport (the message id of the delivery, or the error
  it throws), the CAPTCHA verification call on a form-encoded request text (the decoded
  JSON answer, or the error thrown by the call or by decoding it), \<open>JSON.parse\<close>, the file
  system, the clock and the date formatter, and the configured CAPTCHA secret.
\<close>

record env =
  sendMail :: "mail \<Rightarrow> exn + string"
  RECAPTCHA_SECRET :: "string option"
  siteverify :: "string \<Rightarrow> exn + jsval"
  JSON_parse :: "string \<Rightarrow> exn + jsval"
  readFileSync :: "string \<Rightarrow> exn + string"
  existsSync :: "string \<Rightarrow> bool"
  now :: int
  toLocaleString :: "jsval \<Rightarrow> string"

definition respond :: "nat \<Rightarrow> jsval \<Rightarrow> outcome" where
  "respond code j = \<lparr>status = code, reply = Some j, sent = [], logged = []\<rparr>"

definition respond_end :: "nat \<Rightarrow> outcome" where
  "respond_end code = \<lparr>status = code, reply = None, sent = [], logged = []\<rparr>"

definition with_log :: "logline list \<Rightarrow> outcome \<Rightarrow> outcome" where
  "with_log ls out = out\<lparr>logged := ls @ logged out\<rparr>"

text \<open>The message of the engine's TypeError for a property read on \<open>null\<close>.\<close>

definition cannot_read :: "string \<Rightarrow> string" where
  "cannot_read k =
     ''Cannot read properties of null (reading '' @ [CHR 0x27] @ k @ [CHR 0x27] @ '')''"

section \<open>The handler with CAPTCHA check and escaping (part\_000, line 30)\<close>

definition verification_error :: "exn \<Rightarrow> outcome" where
  "verification_error e =
     with_log [ConsoleError ''reCAPTCHA verify error:'' e]
       (respond 400 (JObj [(''error'', JStr ''reCAPTCHA verification error'')]))"

text \<open>
  Lines 52 to 82. The result is the early response, if there is one. A missing or empty
  secret skips the check. A token that does not convert to text makes the template of
  the request throw, and an answer \<open>null\<close> makes the read of \<open>data.success\<close> throw, both
  inside the \<open>try\<close>.
\<close>

definition verify_recaptcha :: "env \<Rightarrow> jsval \<Rightarrow> outcome option" where
  "verify_recaptcha env b =
     (case RECAPTCHA_SECRET env of
        None \<Rightarrow> None
      | Some secret \<Rightarrow>
          if secret = [] then None
          else
            let token = field b ''recaptchaToken'' in
            if \<not> truthy token
            then Some (respond 400 (JObj [(''error'', JStr ''Missing reCAPTCHA token'')]))
            else if \<not> printable token then Some (verification_error conversion_error)
            else
              (case siteverify env (''secret='' @ secret @ ''&response='' @ toString token) of
                 Inl e \<Rightarrow> Some (verification_error e)
               | Inr data \<Rightarrow>
                   if nullish data
                   then Some (verification_error (Error (cannot_read ''success'')))
                   else if \<not> truthy (field data ''success'')
                   then Some (respond 400
                          (JObj [(''error'', JStr ''reCAPTCHA failed''), (''details'', data)]))
                   else None))"

definition submitted_line :: "jsval \<Rightarrow> string" where
  \<open>submitted_line submittedAt =
     (if truthy submittedAt
      then ''<p style="color:#666"><small>Submitted: '' @ esc submittedAt @ ''</small></p>''
      else [])\<close>

definition contact_subject :: "jsval \<Rightarrow> string" where
  "contact_subject b =
     envelope_icon @ '' New Contact '' @ emdash @ '' '' @ toString (field b ''name'')"

definition contact_html :: "jsval \<Rightarrow> string" where
  \<open>contact_html b =
     ''\<newline>        <h2 style="color:#14276d;margin:0 0 12px">New Contact Message</h2>'' @
     ''\<newline>        <p><b>Name:</b> '' @ esc (field b ''name'') @ ''</p>'' @
     ''\<newline>        <p><b>Email:</b> '' @ esc (field b ''email'') @ ''</p>'' @
     ''\<newline>        <p><b>Phone:</b> '' @ esc (or_else (field b ''phone'') (JStr ''N/A'')) @ ''</p>'' @
     ''\<newline>        <p><b>Message:</b><br>'' @ nl2br (esc (field b ''message'')) @ ''</p>'' @
     ''\<newline>        '' @ submitted_line (field b ''submittedAt'') @
     ''\<newline>      ''\<close>

definition quote_subject :: "jsval \<Rightarrow> string" where
  "quote_subject b =
     receipt_icon @ '' New Quote '' @ emdash @ '' '' @ toString (field b ''category'') @
     '' / '' @ toString (field b ''service'') @
     '' '' @ emdash @ '' '' @ toString (field b ''fullName'')"

definition goals_line :: "jsval \<Rightarrow> string" where
  "goals_line goals =
     (case goals of
        JArr xs \<Rightarrow>
          if xs \<noteq> []
          then ''<p><b>Goals:</b> '' @ join '', '' (map esc xs) @ ''</p>''
          else []
      | _ \<Rightarrow> [])"

definition quote_html :: "jsval \<Rightarrow> string" where
  \<open>quote_html b =
     ''\<newline>        <h2 style="color:#14276d;margin:0 0 12px">New Quote Request</h2>'' @
     ''\<newline>        <p><b>Name:</b> '' @ esc (field b ''fullName'') @ ''</p>'' @
     ''\<newline>        <p><b>Email:</b> '' @ esc (field b ''email'') @ ''</p>'' @
     ''\<newline>        <p><b>Phone:</b> '' @ esc (or_else (field b ''phone'') (JStr [])) @ ''</p>'' @
     ''\<newline>        '' @
       (if truthy (field b ''company'')
        then ''<p><b>Company:</b> '' @ esc (field b ''company'') @ ''</p>'' else []) @
     ''\<newline>        <p><b>Category:</b> '' @ esc (field b ''category'') @
       '' '' @ emdash @ '' <b>Service:</b> '' @ esc (field b ''service'') @ ''</p>'' @
     ''\<newline>        '' @
       (if truthy (field b ''budget'')
        then ''<p><b>Budget:</b> '' @ esc (field b ''budget'') @ ''</p>'' else []) @
     ''\<newline>        '' @
       (if truthy (field b ''timeline'')
        then ''<p><b>Timeline:</b> '' @ esc (field b ''timeline'') @ ''</p>'' else []) @
     ''\<newline>        <p><b>Brief:</b><br>'' @
       nl2br (esc (or_else (field b ''brief'') (JStr []))) @ ''</p>'' @
     ''\<newline>        '' @ goals_line (field b ''goals'') @
     ''\<newline>        '' @
       (if truthy (field b ''references'')
        then ''<p><b>References:</b><br>'' @ nl2br (esc (field b ''references'')) @ ''</p>''
        else []) @
     ''\<newline>        '' @ submitted_line (field b ''submittedAt'') @
     ''\<newline>      ''\<close>

text \<open>
  The values that the templates of a contact (lines 112 to 120) and of a quote (lines
  123 to 137) convert to text, in the order of the conversions.
\<close>

definition contact_converted :: "jsval \<Rightarrow> jsval list" where
  "contact_converted b =
     [field b ''name'', field b ''name'', field b ''email'',
      or_else (field b ''phone'') (JStr ''N/A''), field b ''message''] @
     (if truthy (field b ''submittedAt'') then [field b ''submittedAt''] else [])"

definition quote_converted :: "jsval \<Rightarrow> jsval list" where
  "quote_converted b =
     [field b ''category'', field b ''service'', field b ''fullName'',
      field b ''fullName'', field b ''email'', or_else (field b ''phone'') (JStr [])] @
     (if truthy (field b ''company'') then [field b ''company''] else []) @
     [field b ''category'', field b ''service''] @
     (if truthy (field b ''budget'') then [field b ''budget''] else []) @
     (if truthy (field b ''timeline'') then [field b ''timeline''] else []) @
     [or_else (field b ''brief'') (JStr [])] @
     (case field b ''goals'' of JArr xs \<Rightarrow> xs | _ \<Rightarrow> []) @
     (if truthy (field b ''references'') then [field b ''references''] else []) @
     (if truthy (field b ''submittedAt'') then [field b ''submittedAt''] else [])"

text \<open>Lines 153 to 156: the \<open>catch\<close> around the templates and the send.\<close>

definition caught_30 :: "mail list \<Rightarrow> exn \<Rightarrow> outcome" where
  "caught_30 ms err =
     \<lparr>status = 500,
      reply = Some (JObj [(''success'', JBool False), (''error'', JStr ''Failed to send email'')]),
      sent = ms, logged = [ConsoleError ''Email send failed:'' err]\<rparr>"

text \<open>Lines 144 to 152: the send.\<close>

definition deliver_30 :: "env \<Rightarrow> mail \<Rightarrow> outcome" where
  "deliver_30 env m =
     (case sendMail env m of
        Inr messageId \<Rightarrow>
          \<lparr>status = 200,
           reply = Some (JObj [(''success'', JBool True), (''messageId'', JStr messageId)]),
           sent = [m], logged = []\<rparr>
      | Inl err \<Rightarrow> caught_30 [m] err)"

definition handler_part000_30 :: "env \<Rightarrow> request \<Rightarrow> outcome" where
  "handler_part000_30 env req =
     (if http_method req = ''OPTIONS'' then respond_end 200
      else if http_method req \<noteq> ''POST''
      then respond 405 (JObj [(''error'', JStr ''Method not allowed'')])
      else
        let b = or_else (body req) (JObj []) in
        if \<not> truthy (field b ''kind'')
        then respond 400 (JObj [(''error'', JStr ''Invalid payload: missing kind'')])
        else
          (case verify_recaptcha env b of
             Some early \<Rightarrow> early
           | None \<Rightarrow>
               if field b ''kind'' = JStr ''contact''
               then
                 if \<not> truthy (field b ''name'') \<or> \<not> truthy (field b ''email'')
                    \<or> \<not> truthy (field b ''message'')
                 then respond 400 (JObj [(''error'', JStr ''Missing required fields'')])
                 else if \<not> list_all printable (contact_converted b)
                 then caught_30 [] conversion_error
                 else deliver_30 env
                        \<lparr>subject = contact_subject b, html = contact_html b, attachments = []\<rparr>
               else if field b ''kind'' = JStr ''quote''
               then
                 if \<not> list_all printable (quote_converted b)
                 then caught_30 [] conversion_error
                 else deliver_30 env
                        \<lparr>subject = quote_subject b, html = quote_html b, attachments = []\<rparr>
               else respond 400 (JObj [(''error'', JStr ''Unknown kind'')])))"

section \<open>The plain JSON handler (notify.ts, line 5)\<close>

definition kind_title :: "jsval \<Rightarrow> string" where
  "kind_title b =
     (if field b ''kind'' = JStr ''quote'' then ''Quote Request'' else ''Contact Message'')"

definition html_notify_5 :: "jsval \<Rightarrow> string" where
  \<open>html_notify_5 b =
     ''\<newline>      <h2>New '' @ kind_title b @ ''</h2>'' @
     ''\<newline>      <p><strong>Name:</strong> '' @ toString (field b ''name'') @ ''</p>'' @
     ''\<newline>      <p><strong>Email:</strong> '' @ toString (field b ''email'') @ ''</p>'' @
     ''\<newline>      <p><strong>Phone:</strong> '' @
       toString (or_else (field b ''phone'') (JStr ''N/A'')) @ ''</p>'' @
     ''\<newline>      <p><strong>Message:</strong><br/>'' @
       toString (or_else (field b ''message'') (JStr ''(No message provided)'')) @ ''</p>'' @
     ''\<newline>    ''\<close>

text \<open>The values that the template converts to text.\<close>

definition converted_notify_5 :: "jsval \<Rightarrow> jsval list" where
  "converted_notify_5 b =
     [field b ''name'', field b ''email'', or_else (field b ''phone'') (JStr ''N/A''),
      or_else (field b ''message'') (JStr ''(No message provided)'')]"

text \<open>Lines 50 to 53: the \<open>catch\<close> of the whole body.\<close>

definition caught_5 :: "mail list \<Rightarrow> exn \<Rightarrow> outcome" where
  "caught_5 ms err =
     \<lparr>status = 500,
      reply = Some (JObj [(''success'', JBool False), (''error'', JStr (message err))]),
      sent = ms,
      logged = [ConsoleError (cross_icon @ '' Email sending error:'') err]\<rparr>"

text \<open>The subject used by every handler of notify.ts and by three of part\_000.\<close>

definition plain_subject :: "jsval \<Rightarrow> string" where
  "plain_subject b =
     (if field b ''kind'' = JStr ''quote'' then ''New Quote Request'' else ''New Contact Message'')"

definition handler_notify_5 :: "env \<Rightarrow> request \<Rightarrow> outcome" where
  "handler_notify_5 env req =
     (if http_method req = ''OPTIONS'' then respond_end 200
      else if http_method req \<noteq> ''POST''
      then respond 405 (JObj [(''error'', JStr ''Method not allowed'')])
      else
        let b = or_else (body req) (JObj []) in
        if \<not> truthy (field b ''kind'') \<or> \<not> truthy (field b ''name'')
           \<or> \<not> truthy (field b ''email'')
        then respond 400 (JObj [(''success'', JBool False), (''error'', JStr ''Invalid request body'')])
        else if \<not> list_all printable (converted_notify_5 b)
        then caught_5 [] conversion_error
        else
          let m = \<lparr>subject = plain_subject b, html = html_notify_5 b, attachments = []\<rparr> in
          (case sendMail env m of
             Inr messageId \<Rightarrow>
               \<lparr>status = 200,
                reply = Some (JObj [(''success'', JBool True), (''messageId'', JStr messageId)]),
                sent = [m], logged = []\<rparr>
           | Inl err \<Rightarrow> caught_5 [m] err))"

section \<open>The multipart handler (notify.ts, line 68)\<close>

text \<open>
  Lines 83 to 86: every field whose value is an array is replaced by its first
  element (\<open>undefined\<close> for an empty array); no field is exempt.
\<close>

definition first_value :: "jsval \<Rightarrow> jsval" where
  "first_value v =
     (case v of
        JArr xs \<Rightarrow> (case xs of [] \<Rightarrow> JUndefined | x # rest \<Rightarrow> x)
      | _ \<Rightarrow> v)"

definition flatten_fields :: "(string \<times> jsval) list \<Rightarrow> jsval" where
  "flatten_fields flds = JObj (map (\<lambda>(k, v). (k, first_value v)) flds)"

text \<open>\<open>files.attachment?.[0]\<close>\<close>

definition first_of_array :: "upload \<Rightarrow> upload_file option" where
  "first_of_array up =
     (case up of
        Files fs \<Rightarrow> (case fs of [] \<Rightarrow> None | f # rest \<Rightarrow> Some f)
      | _ \<Rightarrow> None)"

text \<open>
  \<open>v?.replace(/\n/g, "<br>")\<close>: \<open>undefined\<close> for \<open>null\<close> and \<open>undefined\<close>, the replacement on
  a string; any other value has no method \<open>replace\<close>, and the call throws the engine's
  TypeError, whose message names the expression with its \<open>?.\<close>.
\<close>

definition optional_br :: "string \<Rightarrow> jsval \<Rightarrow> exn + jsval" where
  "optional_br name v =
     (case v of
        JUndefined \<Rightarrow> Inr JUndefined
      | JNull \<Rightarrow> Inr JUndefined
      | JStr s \<Rightarrow> Inr (JStr (concat (map (\<lambda>c. if c = CHR 0x0A then ''<br>'' else [c]) s)))
      | _ \<Rightarrow> Inl (Error (name @ ''?.replace is not a function'')))"

definition or_na :: "jsval \<Rightarrow> string" where
  "or_na v = toString (or_else v (JStr ''N/A''))"

definition goals_text :: "jsval \<Rightarrow> string" where
  "goals_text goals =
     (case goals of
        JArr xs \<Rightarrow> join_vals '', '' xs
      | _ \<Rightarrow> toString (or_else goals (JStr ''N/A'')))"

definition file_name_text :: "string option \<Rightarrow> string" where
  "file_name_text n = (case n of None \<Rightarrow> ''null'' | Some s \<Rightarrow> s)"

text \<open>
  The values that the template converts to text before the part for the kind, and those
  that the part for a quote converts before it comes to the brief.
\<close>

definition converted_head :: "jsval \<Rightarrow> jsval list" where
  "converted_head b =
     [or_else (or_else (field b ''name'') (field b ''fullName'')) (JStr ''N/A''),
      field b ''email'', or_else (field b ''phone'') (JStr ''N/A'')]"

definition converted_quote_68 :: "jsval \<Rightarrow> jsval list" where
  "converted_quote_68 b =
     [or_else (field b ''company'') (JStr ''N/A''),
      or_else (field b ''category'') (JStr ''N/A''),
      or_else (field b ''service'') (JStr ''N/A''),
      or_else (field b ''budget'') (JStr ''N/A''),
      or_else (field b ''timeline'') (JStr ''N/A''),
      or_else (field b ''goals'') (JStr ''N/A''),
      or_else (field b ''references'') (JStr ''N/A'')]"

definition kind_part_68 :: "jsval \<Rightarrow> exn + string" where
  \<open>kind_part_68 b =
     (if field b ''kind'' = JStr ''quote''
      then
        if \<not> list_all printable (converted_quote_68 b) then Inl conversion_error
        else
        (case optional_br ''body.brief'' (field b ''brief'') of
           Inl e \<Rightarrow> Inl e
         | Inr brief \<Rightarrow> Inr (
             ''\<newline>        <p><strong>Company:</strong> '' @ or_na (field b ''company'') @ ''</p>'' @
             ''\<newline>        <p><strong>Category:</strong> '' @ or_na (field b ''category'') @ ''</p>'' @
             ''\<newline>        <p><strong>Service:</strong> '' @ or_na (field b ''service'') @ ''</p>'' @
             ''\<newline>        <p><strong>Budget:</strong> '' @ or_na (field b ''budget'') @ ''</p>'' @
             ''\<newline>        <p><strong>Timeline:</strong> '' @ or_na (field b ''timeline'') @ ''</p>'' @
             ''\<newline>        <p><strong>Goals:</strong> '' @ goals_text (field b ''goals'') @ ''</p>'' @
             ''\<newline>        <p><strong>Reference Links:</strong> '' @
               or_na (field b ''references'') @ ''</p>'' @
             ''\<newline>        <p><strong>Brief:</strong><br>'' @
               toString (or_else brief (JStr ''(No brief provided)'')) @ ''</p>'' @
             ''\<newline>      ''))
      else
        (case optional_br ''body.message'' (field b ''message'') of
           Inl e \<Rightarrow> Inl e
         | Inr msg \<Rightarrow> Inr (
             ''\<newline>        <p><strong>Message:</strong><br>'' @
               toString (or_else msg (JStr ''(No message provided)'')) @ ''</p>'' @
             ''\<newline>      '')))\<close>

definition html_notify_68 :: "env \<Rightarrow> jsval \<Rightarrow> upload_file option \<Rightarrow> exn + string" where
  \<open>html_notify_68 env b file =
     (if \<not> list_all printable (converted_head b) then Inl conversion_error
      else
      case kind_part_68 b of
        Inl e \<Rightarrow> Inl e
      | Inr part \<Rightarrow>
        if \<not> printable (or_else (field b ''submittedAt'') (JNum (now env)))
        then Inl conversion_error
        else Inr (
          ''\<newline>    <div style="font-family: Arial, sans-serif; color: #333; line-height: 1.6;">'' @
          ''\<newline>      <h2 style="color: #fe2681;">New '' @ kind_title b @ ''</h2>'' @
          ''\<newline>      <p><strong>Name:</strong> '' @
            toString (or_else (or_else (field b ''name'') (field b ''fullName'')) (JStr ''N/A'')) @
            ''</p>'' @
          ''\<newline>      <p><strong>Email:</strong> <a href="mailto:'' @ toString (field b ''email'') @
            ''">'' @ toString (field b ''email'') @ ''</a></p>'' @
          ''\<newline>      <p><strong>Phone:</strong> '' @ or_na (field b ''phone'') @ ''</p>'' @
          ''\<newline>'' @
          ''\<newline>      '' @ part @
          ''\<newline>'' @
          ''\<newline>      '' @
            (case file of
               Some f \<Rightarrow>
                 ''<p><strong>Attachment:</strong> '' @ file_name_text (originalFilename f) @ ''</p>''
             | None \<Rightarrow> []) @
          ''\<newline>'' @
          ''\<newline>      <hr style="margin-top: 20px;">'' @
          ''\<newline>      <p style="font-size: 0.9em; color: #777;">Submitted on '' @
            toLocaleString env (or_else (field b ''submittedAt'') (JNum (now env))) @ ''</p>'' @
          ''\<newline>    </div>'' @
          ''\<newline>    ''))\<close>

text \<open>
  Lines 97 to 108: the attachment list, and the warning logged when the uploaded file
  cannot be read.
\<close>

definition read_attachment_68 ::
  "env \<Rightarrow> upload_file option \<Rightarrow> attachment list \<times> logline list" where
  "read_attachment_68 env file =
     (case file of
        None \<Rightarrow> ([], [])
      | Some f \<Rightarrow>
          (case readFileSync env (filepath f) of
             Inr fileData \<Rightarrow> ([\<lparr>filename = originalFilename f, content = fileData\<rparr>], [])
           | Inl fileErr \<Rightarrow> ([], [ConsoleWarn (warning_icon @ '' File read failed:'') fileErr])))"

text \<open>Lines 184 to 187: the \<open>catch\<close> of the whole body.\<close>

definition caught_68 :: "mail list \<Rightarrow> exn \<Rightarrow> outcome" where
  "caught_68 ms err =
     \<lparr>status = 500,
      reply = Some (JObj [(''success'', JBool False), (''error'', JStr (message err))]),
      sent = ms,
      logged = [ConsoleError (cross_icon @ '' Email sending error:'') err]\<rparr>"

definition handler_notify_68 :: "env \<Rightarrow> request \<Rightarrow> outcome" where
  "handler_notify_68 env req =
     (if http_method req = ''OPTIONS'' then respond_end 200
      else if http_method req \<noteq> ''POST''
      then respond 405 (JObj [(''error'', JStr ''Method not allowed'')])
      else
        (case form req of
           Inl err \<Rightarrow> caught_68 [] err
         | Inr (flds, fls) \<Rightarrow>
             let b = flatten_fields flds; file = first_of_array fls in
             if \<not> truthy (field b ''kind'') \<or> \<not> truthy (field b ''name'')
                \<or> \<not> truthy (field b ''email'')
             then respond 400
                    (JObj [(''success'', JBool False), (''error'', JStr ''Invalid request body'')])
             else
               (case read_attachment_68 env file of
                  (atts, warnings) \<Rightarrow>
                    with_log warnings
                      (case html_notify_68 env b file of
                         Inl err \<Rightarrow> caught_68 [] err
                       | Inr h \<Rightarrow>
                           let m = \<lparr>subject = plain_subject b, html = h, attachments = atts\<rparr> in
                           (case sendMail env m of
                              Inl err \<Rightarrow> caught_68 [m] err
                            | Inr messageId \<Rightarrow>
                                \<lparr>status = 200,
                                 reply = Some (JObj [(''success'', JBool True),
                                                     (''messageId'', JStr messageId)]),
                                 sent = [m], logged = []\<rparr>)))))"

section \<open>The handler for multipart and JSON bodies (part\_000, line 316)\<close>

text \<open>
  Lines 295 to 307: the raw body, or \<open>{}\<close> when it is empty, goes through \<open>JSON.parse\<close>;
  a parse error is logged as a warning and the result is the empty object.
\<close>

definition parseJsonBody :: "env \<Rightarrow> request \<Rightarrow> jsval \<times> logline list" where
  "parseJsonBody env req =
     (let raw = (if rawBody req = [] then ''{}'' else rawBody req) in
      case JSON_parse env raw of
        Inr v \<Rightarrow> (v, [])
      | Inl e \<Rightarrow> (JObj [], [ConsoleWarn (warning_icon @ '' Failed to parse JSON body:'') e]))"

definition getContentType :: "request \<Rightarrow> string" where
  "getContentType req = (case contentType req of None \<Rightarrow> [] | Some s \<Rightarrow> s)"

text \<open>Lines 342 to 344: the first file of an array, or the file object itself.\<close>

definition first_or_single :: "upload \<Rightarrow> upload_file option" where
  "first_or_single up =
     (case up of
        NoUpload \<Rightarrow> None
      | OneFile f \<Rightarrow> Some f
      | Files fs \<Rightarrow> (case fs of [] \<Rightarrow> None | f # rest \<Rightarrow> Some f))"

definition converted_quote_316 :: "jsval \<Rightarrow> jsval list" where
  "converted_quote_316 b =
     [or_else (field b ''service'') (JStr ''N/A''),
      or_else (field b ''budget'') (JStr ''N/A'')]"

definition kind_part_316 :: "jsval \<Rightarrow> exn + string" where
  \<open>kind_part_316 b =
     (if field b ''kind'' = JStr ''quote''
      then
        if \<not> list_all printable (converted_quote_316 b) then Inl conversion_error
        else
        (case optional_br ''body.brief'' (field b ''brief'') of
           Inl e \<Rightarrow> Inl e
         | Inr brief \<Rightarrow> Inr (
             ''\<newline>          <p><strong>Service:</strong> '' @ or_na (field b ''service'') @ ''</p>'' @
             ''\<newline>          <p><strong>Budget:</strong> '' @ or_na (field b ''budget'') @ ''</p>'' @
             ''\<newline>          <p><strong>Brief:</strong><br>'' @
               toString (or_else brief (JStr ''(none)'')) @ ''</p>'' @
             ''\<newline>        ''))
      else
        (case optional_br ''body.message'' (field b ''message'') of
           Inl e \<Rightarrow> Inl e
         | Inr msg \<Rightarrow> Inr (
             ''\<newline>          <p><strong>Message:</strong><br>'' @
               toString (or_else msg (JStr ''(none)'')) @ ''</p>'' @
             ''\<newline>        '')))\<close>

definition html_part000_316 :: "jsval \<Rightarrow> upload_file option \<Rightarrow> exn + string" where
  \<open>html_part000_316 b file =
     (if \<not> list_all printable (converted_head b) then Inl conversion_error
      else
      case kind_part_316 b of
        Inl e \<Rightarrow> Inl e
      | Inr part \<Rightarrow> Inr (
          ''\<newline>      <div style="font-family: Arial, sans-serif; color: #333; line-height: 1.6;">'' @
          ''\<newline>        <h2 style="color: #fe2681;">New '' @ kind_title b @ ''</h2>'' @
          ''\<newline>        <p><strong>Name:</strong> '' @
            toString (or_else (or_else (field b ''name'') (field b ''fullName'')) (JStr ''N/A'')) @
            ''</p>'' @
          ''\<newline>        <p><strong>Email:</strong> '' @ toString (field b ''email'') @ ''</p>'' @
          ''\<newline>        <p><strong>Phone:</strong> '' @ or_na (field b ''phone'') @ ''</p>'' @
          ''\<newline>        '' @ part @
          ''\<newline>        '' @
            (case file of
               Some f \<Rightarrow>
                 ''<p><strong>Attachment:</strong> '' @ file_name_text (originalFilename f) @ ''</p>''
             | None \<Rightarrow> []) @
          ''\<newline>      </div>'' @
          ''\<newline>    ''))\<close>

text \<open>Lines 431 to 436: the \<open>catch\<close> of the whole body.\<close>

definition caught_316 :: "mail list \<Rightarrow> exn \<Rightarrow> outcome" where
  "caught_316 ms err =
     \<lparr>status = 500,
      reply = Some (JObj [(''success'', JBool False),
                (''error'', JStr (if message err \<noteq> [] then message err
                                  else ''Internal server error''))]),
      sent = ms,
      logged = [ConsoleError (cross_icon @ '' Email send error:'') err]\<rparr>"

text \<open>
  Lines 334 to 362: the field mapping and the file of the request. Both branches for a
  body that is not multipart are the same call of \<open>parseJsonBody\<close>.
\<close>

definition normalize_316 ::
  "env \<Rightarrow> request \<Rightarrow> exn + (jsval \<times> upload_file option \<times> logline list)" where
  "normalize_316 env req =
     (if prefix ''multipart/form-data'' (getContentType req)
      then
        (case form req of
           Inl err \<Rightarrow> Inl err
         | Inr (flds, fls) \<Rightarrow> Inr (flatten_fields flds, first_or_single fls, []))
      else if prefix ''application/json'' (getContentType req)
      then (case parseJsonBody env req of (b, warnings) \<Rightarrow> Inr (b, None, warnings))
      else (case parseJsonBody env req of (b, warnings) \<Rightarrow> Inr (b, None, warnings)))"

text \<open>
  Lines 364 to 430, after the body is normalized. Reading \<open>body.kind\<close> throws when the
  JSON text was \<open>null\<close>. The file is attached when it has a path that exists; a failing
  read of it is not caught locally.
\<close>

definition process_316 :: "env \<Rightarrow> jsval \<Rightarrow> upload_file option \<Rightarrow> outcome" where
  "process_316 env b file =
     (if nullish b then caught_316 [] (Error (cannot_read ''kind''))
      else if \<not> truthy (field b ''kind'') \<or> \<not> truthy (field b ''email'')
      then respond 400
             (JObj [(''success'', JBool False), (''error'', JStr ''Missing required fields'')])
      else
        (case (case file of
                 None \<Rightarrow> Inr []
               | Some f \<Rightarrow>
                   if filepath f \<noteq> [] \<and> existsSync env (filepath f)
                   then (case readFileSync env (filepath f) of
                           Inl err \<Rightarrow> Inl err
                         | Inr fileBuffer \<Rightarrow>
                             Inr [\<lparr>filename =
                                     Some (case originalFilename f of
                                             None \<Rightarrow> ''attachment''
                                           | Some n \<Rightarrow> if n = [] then ''attachment'' else n),
                                   content = fileBuffer\<rparr>])
                   else Inr []) of
           Inl err \<Rightarrow> caught_316 [] err
         | Inr atts \<Rightarrow>
             (case html_part000_316 b file of
                Inl err \<Rightarrow> caught_316 [] err
              | Inr h \<Rightarrow>
                  let m = \<lparr>subject = plain_subject b, html = h, attachments = atts\<rparr> in
                  (case sendMail env m of
                     Inl err \<Rightarrow> caught_316 [m] err
                   | Inr messageId \<Rightarrow>
                       \<lparr>status = 200,
                        reply = Some (JObj [(''success'', JBool True),
                                            (''messageId'', JStr messageId)]),
                        sent = [m], logged = []\<rparr>))))"

definition handler_part000_316 :: "env \<Rightarrow> request \<Rightarrow> outcome" where
  "handler_part000_316 env req =
     (if http_method req = ''OPTIONS'' then respond_end 200
      else if http_method req \<noteq> ''POST''
      then respond 405 (JObj [(''error'', JStr ''Method not allowed'')])
      else
        (case normalize_316 env req of
           Inl err \<Rightarrow> caught_316 [] err
         | Inr (b, file, warnings) \<Rightarrow> with_log warnings (process_316 env b file)))"

section \<open>Sample collaborators and requests\<close>

text \<open>
  Concrete collaborators for the examples below: a transport that accepts every
  message, no CAPTCHA secret, a \<open>JSON.parse\<close> that knows two texts, a file system with
  one readable file, and a fixed date text.
\<close>

definition sample_parse :: "string \<Rightarrow> exn + jsval" where
  "sample_parse raw =
     (if raw = ''{}'' then Inr (JObj [])
      else if raw = ''null'' then Inr JNull
      else Inl (Error ''Unexpected token in JSON''))"

definition sample_env :: env where
  "sample_env =
     \<lparr>sendMail = (\<lambda>m. Inr ''<1@pixelflare.in>''),
      RECAPTCHA_SECRET = None,
      siteverify = (\<lambda>q. Inr (JObj [(''success'', JBool True)])),
      JSON_parse = sample_parse,
      readFileSync = (\<lambda>p. if p = ''/tmp/upload_1'' then Inr ''PDFDATA''
                            else Inl (Error ''ENOENT: no such file or directory'')),
      existsSync = (\<lambda>p. p = ''/tmp/upload_1''),
      now = 0,
      toLocaleString = (\<lambda>v. ''1/1/1970, 12:00:00 AM'')\<rparr>"

text \<open>The same with a CAPTCHA secret configured.\<close>

definition captcha_env :: env where
  "captcha_env = sample_env\<lparr>RECAPTCHA_SECRET := Some ''6Lc-secret''\<rparr>"

text \<open>The same with a transport that fails, as a relay does on a rejected login.\<close>

definition failing_env :: env where
  "failing_env =
     sample_env\<lparr>sendMail :=
       (\<lambda>m. Inl (Error ''Invalid login: 535-5.7.8 Username and Password not accepted''))\<rparr>"

text \<open>A POST request whose parsed body is given.\<close>

definition post_json :: "jsval \<Rightarrow> request" where
  "post_json b =
     \<lparr>http_method = ''POST'', contentType = Some ''application/json'', body = b,
      rawBody = [], form = Inl (Error ''not multipart'')\<rparr>"

text \<open>A POST request with a raw body, for the handlers that parse it themselves.\<close>

definition post_raw :: "string \<Rightarrow> string \<Rightarrow> request" where
  "post_raw ct raw =
     \<lparr>http_method = ''POST'', contentType = Some ct, body = JUndefined,
      rawBody = raw, form = Inl (Error ''not multipart'')\<rparr>"

text \<open>A multipart POST request, given by what the multipart parser makes of it.\<close>

definition post_form :: "(string \<times> jsval) list \<Rightarrow> upload \<Rightarrow> request" where
  "post_form flds fls =
     \<lparr>http_method = ''POST'', contentType = Some ''multipart/form-data; boundary=x'',
      body = JUndefined, rawBody = [], form = Inr (flds, fls)\<rparr>"

section \<open>Basic facts\<close>

lemma field_or_else_empty: "field (or_else v (JObj [])) k = field v k"
  by (cases v) (simp_all add: or_else_def)

lemma map_of_filter_other: "map_of (filter (\<lambda>p. fst p \<noteq> k) kvs) k = None"
  by (induction kvs) auto

lemma field_removed: "field (JObj (filter (\<lambda>p. fst p \<noteq> k) kvs)) k = JUndefined"
  by (simp add: map_of_filter_other)

subsection \<open>What the handler of part\_000, line 30 sends\<close>

lemma sent_deliver_30: "sent (deliver_30 env m) = [m]"
  by (simp add: deliver_30_def caught_30_def split: sum.splits)

lemma sent_contact_30:
  assumes "http_method req = ''POST''" and "b = or_else (body req) (JObj [])"
    and "verify_recaptcha env b = None"
    and "field b ''kind'' = JStr ''contact''"
    and "truthy (field b ''name'')" and "truthy (field b ''email'')"
    and "truthy (field b ''message'')"
    and "list_all printable (contact_converted b)"
  shows "sent (handler_part000_30 env req) =
           [\<lparr>subject = contact_subject b, html = contact_html b, attachments = []\<rparr>]"
  using assms by (simp add: handler_part000_30_def Let_def sent_deliver_30)

lemma sent_quote_30:
  assumes "http_method req = ''POST''" and "b = or_else (body req) (JObj [])"
    and "verify_recaptcha env b = None"
    and "field b ''kind'' = JStr ''quote''"
    and "list_all printable (quote_converted b)"
  shows "sent (handler_part000_30 env req) =
           [\<lparr>subject = quote_subject b, html = quote_html b, attachments = []\<rparr>]"
  using assms by (simp add: handler_part000_30_def Let_def sent_deliver_30)

lemma nl2br_append: "nl2br (xs @ ys) = nl2br xs @ nl2br ys"
  by (simp add: nl2br_def)

lemma esc_char_cases:
  "esc_char c =
     (if c = CHR ''&'' then ''&amp;'' else if c = CHR ''<'' then ''&lt;''
      else if c = CHR ''>'' then ''&gt;'' else if c = CHR 0x22 then ''&quot;''
      else if c = CHR 0x27 then ''&#39;'' else [c])"
  by (simp add: esc_char_def metachars_def entities_def)

lemma nl2br_esc_char:
  "nl2br (esc_char c) = (if c = CHR 0x0A then ''<br>'' else esc_char c)"
  by (simp add: esc_char_cases nl2br_def)

lemma nl2br_concat_esc:
  "nl2br (concat (map esc_char s)) =
     concat (map (\<lambda>c. if c = CHR 0x0A then ''<br>'' else esc_char c) s)"
  by (induction s) (simp_all add: nl2br_append nl2br_esc_char, simp add: nl2br_def)

lemma no_newline_after_nl2br: "CHR 0x0A \<notin> set (nl2br s)"
  by (induction s) (simp_all add: nl2br_def)

lemma segment_here: "\<exists>pre post. L @ N @ E @ R = pre @ L @ N @ E @ post"
  by (rule exI [of _ "[]"], rule exI [of _ R]) simp

lemma segment_later:
  assumes "\<exists>pre post. X = pre @ L @ N @ E @ post"
  shows "\<exists>pre post. Y @ X = pre @ L @ N @ E @ post"
proof -
  from assms obtain pre post where "X = pre @ L @ N @ E @ post" by blast
  then have "Y @ X = (Y @ pre) @ L @ N @ E @ post" by simp
  then show ?thesis by blast
qed

lemma esc_eval: "esc (JStr s) = concat (map esc_char s)"
  by (simp add: esc_def)

subsection \<open>What the handlers of notify.ts, lines 5 and 68 send\<close>

lemma sent_notify_5:
  assumes "http_method req = ''POST''" and "b = or_else (body req) (JObj [])"
    and "truthy (field b ''kind'')" and "truthy (field b ''name'')"
    and "truthy (field b ''email'')"
    and "list_all printable (converted_notify_5 b)"
  shows "sent (handler_notify_5 env req) =
           [\<lparr>subject = plain_subject b, html = html_notify_5 b, attachments = []\<rparr>]"
  using assms by (simp add: handler_notify_5_def Let_def caught_5_def split: sum.splits)

lemma sent_notify_68:
  assumes "http_method req = ''POST''" and "form req = Inr (flds, fls)"
    and "b = flatten_fields flds"
    and "truthy (field b ''kind'')" and "truthy (field b ''name'')"
    and "truthy (field b ''email'')"
    and "html_notify_68 env b (first_of_array fls) = Inr h"
  shows "sent (handler_notify_68 env req) =
           [\<lparr>subject = plain_subject b, html = h,
             attachments = fst (read_attachment_68 env (first_of_array fls))\<rparr>]"
  using assms
  by (simp add: handler_notify_68_def Let_def with_log_def caught_68_def
      split: sum.splits prod.splits)

lemma esc_char_no_markup:
  "set (esc_char c) \<inter> {CHR ''<'', CHR ''>'', CHR 0x22, CHR 0x27} = {}"
  by (simp add: esc_char_cases)

lemma esc_no_markup: "set (esc v) \<inter> {CHR ''<'', CHR ''>'', CHR 0x22, CHR 0x27} = {}"
proof -
  have "set (concat (map esc_char s)) \<inter> {CHR ''<'', CHR ''>'', CHR 0x22, CHR 0x27} = {}" for s
    using esc_char_no_markup by (induction s) (simp_all add: Int_Un_distrib2)
  then show ?thesis by (simp add: esc_def)
qed

lemma segment_inside:
  "\<exists>pre' post'. (pre @ L @ N @ E @ post) @ Z = pre' @ L @ N @ E @ post'"
  by (rule exI [of _ pre], rule exI [of _ "post @ Z"]) simp

lemma kind_part_68_goals:
  assumes "field b ''kind'' = JStr ''quote''"
    and "list_all printable (converted_quote_68 b)"
    and "optional_br ''body.brief'' (field b ''brief'') = Inr br"
  shows "\<exists>P. kind_part_68 b = Inr P \<and>
          (\<exists>pre post. P = pre @ ''\<newline>        <p><strong>Goals:</strong> ''
             @ goals_text (field b ''goals'') @ ''</p>'' @ post)"
  unfolding kind_part_68_def using assms
  apply (simp only: simp_thms if_True if_False sum.case)
  apply (rule exI, rule conjI, rule refl)
  apply (intro segment_here segment_later)
  done

lemma html_notify_68_goals:
  assumes "field b ''kind'' = JStr ''quote''"
    and "list_all printable (converted_quote_68 b)"
    and "optional_br ''body.brief'' (field b ''brief'') = Inr br"
    and "list_all printable (converted_head b)"
    and "printable (or_else (field b ''submittedAt'') (JNum (now env)))"
  shows "\<exists>pre post. html_notify_68 env b file =
           Inr (pre @ ''\<newline>        <p><strong>Goals:</strong> ''
             @ goals_text (field b ''goals'') @ ''</p>'' @ post)"
proof -
  from kind_part_68_goals [OF assms(1-3)] obtain P pre post
    where kp: "kind_part_68 b = Inr P"
      and P: "P = pre @ ''\<newline>        <p><strong>Goals:</strong> ''
             @ goals_text (field b ''goals'') @ ''</p>'' @ post"
    by blast
  show ?thesis
    unfolding html_notify_68_def kp P using assms(4,5)
    apply (simp only: simp_thms if_False sum.case sum.inject)
    apply (intro segment_inside segment_later)
    done
qed

lemma deliver_30_opaque:
  assumes "sendMail env m = Inl err"
  shows "deliver_30 env m =
           \<lparr>status = 500,
            reply = Some (JObj [(''success'', JBool False),
                                (''error'', JStr ''Failed to send email'')]),
            sent = [m], logged = [ConsoleError ''Email send failed:'' err]\<rparr>"
  using assms by (simp add: deliver_30_def caught_30_def)

subsection \<open>A JSON body that is no object\<close>

text \<open>
  The handlers that read \<open>req.body\<close> replace a falsy body by the empty object. The handler
  of part\_000, line 316 has no such guard: for the JSON text \<open>null\<close> the read of
  \<open>body.kind\<close> throws, and the answer is status 500.
\<close>

lemma null_body_316:
  "handler_part000_316 sample_env (post_raw ''application/json'' ''null'') =
     \<lparr>status = 500,
      reply = Some (JObj [(''success'', JBool False),
                (''error'', JStr (cannot_read ''kind''))]),
      sent = [],
      logged = [ConsoleError (cross_icon @ '' Email send error:'')
                  (Error (cannot_read ''kind''))]\<rparr>"
  by (simp add: handler_part000_316_def normalize_316_def parseJsonBody_def
      process_316_def caught_316_def with_log_def post_raw_def getContentType_def
      sample_env_def sample_parse_def cannot_read_def)

section \<open>Missing kind\<close>

text \<open>
  Claim C2. A POST request whose body has no \<open>kind\<close> field is answered with status 400
  and an error naming the invalid payload, and nothing is handed to the transport,
  whatever else the body holds. This is shown for the handlers that read the parsed
  body: the one of part\_000, line 30 (\<open>Invalid payload: missing kind\<close>) and the one of
  notify.ts, line 5 (\<open>Invalid request body\<close>).
\<close>

theorem missing_kind_rejected:
  assumes "http_method req = ''POST''"
    and "field (body req) ''kind'' = JUndefined"
  shows "handler_part000_30 env req =
           \<lparr>status = 400,
            reply = Some (JObj [(''error'', JStr ''Invalid payload: missing kind'')]),
            sent = [], logged = []\<rparr>
         \<and> handler_notify_5 env req =
           \<lparr>status = 400,
            reply = Some (JObj [(''success'', JBool False),
                                (''error'', JStr ''Invalid request body'')]),
            sent = [], logged = []\<rparr>"
  using assms
  by (simp add: handler_part000_30_def handler_notify_5_def Let_def
      field_or_else_empty respond_def)

theorem missing_kind_rejected_witness:
  "handler_part000_30 captcha_env
     (post_json (JObj [(''name'', JStr ''Jane Doe''), (''email'', JStr ''jane@x.com''),
                       (''message'', JStr ''Hello'')])) =
     \<lparr>status = 400,
      reply = Some (JObj [(''error'', JStr ''Invalid payload: missing kind'')]),
      sent = [], logged = []\<rparr>
   \<and> handler_notify_5 captcha_env
     (post_json (JObj [(''name'', JStr ''Jane Doe''), (''email'', JStr ''jane@x.com''),
                       (''message'', JStr ''Hello'')])) =
     \<lparr>status = 400,
      reply = Some (JObj [(''success'', JBool False),
                          (''error'', JStr ''Invalid request body'')]),
      sent = [], logged = []\<rparr>"
  by (rule missing_kind_rejected) (simp_all add: post_json_def)

section \<open>Missing CAPTCHA token\<close>

text \<open>
  Claim C9. When a reCAPTCHA secret is configured (present and not empty) and the body
  of a POST request carries no \<open>recaptchaToken\<close> (none, or a falsy one), the handler of
  part\_000, line 30 answers with status 400 and hands nothing to the transport. The
  answer is \<open>Missing reCAPTCHA token\<close> when the body has a kind, and the answer for a
  missing kind otherwise.
\<close>

theorem missing_token_rejected:
  assumes "http_method req = ''POST''"
    and "RECAPTCHA_SECRET env = Some secret" and "secret \<noteq> []"
    and "\<not> truthy (field (body req) ''recaptchaToken'')"
  shows "status (handler_part000_30 env req) = 400
         \<and> sent (handler_part000_30 env req) = []
         \<and> (truthy (field (body req) ''kind'') \<longrightarrow>
              reply (handler_part000_30 env req) =
                Some (JObj [(''error'', JStr ''Missing reCAPTCHA token'')]))"
  using assms
  by (simp add: handler_part000_30_def verify_recaptcha_def Let_def
      field_or_else_empty respond_def)

theorem missing_token_rejected_witness:
  "status (handler_part000_30 captcha_env
     (post_json (JObj [(''kind'', JStr ''contact''), (''name'', JStr ''Jane Doe''),
                       (''email'', JStr ''jane@x.com''), (''message'', JStr ''Hello'')]))) = 400
   \<and> sent (handler_part000_30 captcha_env
     (post_json (JObj [(''kind'', JStr ''contact''), (''name'', JStr ''Jane Doe''),
                       (''email'', JStr ''jane@x.com''), (''message'', JStr ''Hello'')]))) = []
   \<and> reply (handler_part000_30 captcha_env
     (post_json (JObj [(''kind'', JStr ''contact''), (''name'', JStr ''Jane Doe''),
                       (''email'', JStr ''jane@x.com''), (''message'', JStr ''Hello'')]))) =
       Some (JObj [(''error'', JStr ''Missing reCAPTCHA token'')])"
  using missing_token_rejected
    [of "post_json (JObj [(''kind'', JStr ''contact''), (''name'', JStr ''Jane Doe''),
                          (''email'', JStr ''jane@x.com''), (''message'', JStr ''Hello'')])"
        captcha_env "''6Lc-secret''"]
  by (simp add: post_json_def captcha_env_def sample_env_def)

section \<open>Malformed JSON\<close>

text \<open>
  Claim C6. In the handler of part\_000, line 316, a POST request whose content type is
  not multipart (JSON, or anything else, which takes the JSON fallback) and whose body
  \<open>JSON.parse\<close> rejects is not answered with an exception: \<open>parseJsonBody\<close> returns the
  empty object and logs a warning, and the handler, finding no \<open>kind\<close>, answers with
  status 400 and \<open>Missing required fields\<close>, the same answer as for any other missing
  required field. Nothing is handed to the transport.
\<close>

theorem malformed_json_rejected:
  assumes "http_method req = ''POST''"
    and "\<not> prefix ''multipart/form-data'' (getContentType req)"
    and "JSON_parse env (if rawBody req = [] then ''{}'' else rawBody req) = Inl e"
  shows "parseJsonBody env req =
           (JObj [], [ConsoleWarn (warning_icon @ '' Failed to parse JSON body:'') e])
         \<and> handler_part000_316 env req =
           \<lparr>status = 400,
            reply = Some (JObj [(''success'', JBool False),
                                (''error'', JStr ''Missing required fields'')]),
            sent = [],
            logged = [ConsoleWarn (warning_icon @ '' Failed to parse JSON body:'') e]\<rparr>"
proof -
  have p: "parseJsonBody env req =
             (JObj [], [ConsoleWarn (warning_icon @ '' Failed to parse JSON body:'') e])"
    using assms(3) by (simp add: parseJsonBody_def Let_def)
  have n: "normalize_316 env req =
             Inr (JObj [], None, [ConsoleWarn (warning_icon @ '' Failed to parse JSON body:'') e])"
    using assms(2) by (simp add: normalize_316_def p)
  have "process_316 env (JObj []) None =
          respond 400 (JObj [(''success'', JBool False), (''error'', JStr ''Missing required fields'')])"
    by (simp add: process_316_def)
  with n p assms(1) show ?thesis
    by (simp add: handler_part000_316_def with_log_def respond_def)
qed

theorem malformed_json_rejected_witness:
  "handler_part000_316 sample_env (post_raw ''application/json'' ''{kind: contact'') =
     \<lparr>status = 400,
      reply = Some (JObj [(''success'', JBool False),
                          (''error'', JStr ''Missing required fields'')]),
      sent = [],
      logged = [ConsoleWarn (warning_icon @ '' Failed to parse JSON body:'')
                  (Error ''Unexpected token in JSON'')]\<rparr>
   \<and> handler_part000_316 sample_env (post_raw ''text/plain'' ''kind=contact'') =
     \<lparr>status = 400,
      reply = Some (JObj [(''success'', JBool False),
                          (''error'', JStr ''Missing required fields'')]),
      sent = [],
      logged = [ConsoleWarn (warning_icon @ '' Failed to parse JSON body:'')
                  (Error ''Unexpected token in JSON'')]\<rparr>"
  using malformed_json_rejected
      [of "post_raw ''application/json'' ''{kind: contact''" sample_env "Error ''Unexpected token in JSON''"]
    malformed_json_rejected
      [of "post_raw ''text/plain'' ''kind=contact''" sample_env "Error ''Unexpected token in JSON''"]
  by (simp add: post_raw_def sample_env_def sample_parse_def getContentType_def)

section \<open>Empty strings in required fields\<close>

text \<open>
  Claim C10. The required-field checks treat an empty string as a missing field. In the
  handler of notify.ts, line 5, a POST body whose \<open>kind\<close>, \<open>name\<close> or \<open>email\<close> is the empty
  string is answered with status 400 and nothing is sent, and the outcome is the one
  for the same body without that field. In the handler of part\_000, line 316, the same
  holds for \<open>kind\<close> and \<open>email\<close> of the normalized body: the outcome is the one of any
  request that normalizes to the same fields without that one.
\<close>

theorem empty_string_as_missing:
  assumes "http_method req = ''POST''" and "map_of kvs k = Some (JStr [])"
  shows "(body req = JObj kvs \<and> k \<in> {''kind'', ''name'', ''email''} \<longrightarrow>
            handler_notify_5 env req =
              \<lparr>status = 400,
               reply = Some (JObj [(''success'', JBool False),
                                   (''error'', JStr ''Invalid request body'')]),
               sent = [], logged = []\<rparr>
            \<and> handler_notify_5 env (req\<lparr>body := JObj (filter (\<lambda>p. fst p \<noteq> k) kvs)\<rparr>) =
              handler_notify_5 env req)
       \<and> (normalize_316 env req = Inr (JObj kvs, file, ws) \<and> k \<in> {''kind'', ''email''} \<longrightarrow>
            handler_part000_316 env req =
              \<lparr>status = 400,
               reply = Some (JObj [(''success'', JBool False),
                                   (''error'', JStr ''Missing required fields'')]),
               sent = [], logged = ws\<rparr>
            \<and> (\<forall>req'. http_method req' = ''POST'' \<and>
                   normalize_316 env req' =
                     Inr (JObj (filter (\<lambda>p. fst p \<noteq> k) kvs), file, ws) \<longrightarrow>
                   handler_part000_316 env req' = handler_part000_316 env req))"
proof (intro conjI impI allI)
  assume a: "body req = JObj kvs \<and> k \<in> {''kind'', ''name'', ''email''}"
  then have f: "field (JObj kvs) k = JStr []" using assms(2) by simp
  show r: "handler_notify_5 env req =
      \<lparr>status = 400,
       reply = Some (JObj [(''success'', JBool False), (''error'', JStr ''Invalid request body'')]),
       sent = [], logged = []\<rparr>"
    using a assms by (auto simp: handler_notify_5_def Let_def or_else_def respond_def)
  have "field (JObj (filter (\<lambda>p. fst p \<noteq> k) kvs)) k = JUndefined"
    by (rule field_removed)
  then have "handler_notify_5 env (req\<lparr>body := JObj (filter (\<lambda>p. fst p \<noteq> k) kvs)\<rparr>) =
      \<lparr>status = 400,
       reply = Some (JObj [(''success'', JBool False), (''error'', JStr ''Invalid request body'')]),
       sent = [], logged = []\<rparr>"
    using a assms(1)
    by (auto simp: handler_notify_5_def Let_def or_else_def respond_def simp del: field.simps)
  with r show "handler_notify_5 env (req\<lparr>body := JObj (filter (\<lambda>p. fst p \<noteq> k) kvs)\<rparr>) =
      handler_notify_5 env req" by simp
next
  assume a: "normalize_316 env req = Inr (JObj kvs, file, ws) \<and> k \<in> {''kind'', ''email''}"
  have p: "process_316 env (JObj kvs) file =
      respond 400 (JObj [(''success'', JBool False), (''error'', JStr ''Missing required fields'')])"
    using a assms(2) by (auto simp: process_316_def)
  show r: "handler_part000_316 env req =
      \<lparr>status = 400,
       reply = Some (JObj [(''success'', JBool False), (''error'', JStr ''Missing required fields'')]),
       sent = [], logged = ws\<rparr>"
    using a assms(1) p by (simp add: handler_part000_316_def with_log_def respond_def)
  fix req'
  assume b: "http_method req' = ''POST'' \<and>
     normalize_316 env req' = Inr (JObj (filter (\<lambda>p. fst p \<noteq> k) kvs), file, ws)"
  have "field (JObj (filter (\<lambda>p. fst p \<noteq> k) kvs)) k = JUndefined"
    by (rule field_removed)
  then have "process_316 env (JObj (filter (\<lambda>p. fst p \<noteq> k) kvs)) file =
      respond 400 (JObj [(''success'', JBool False), (''error'', JStr ''Missing required fields'')])"
    using a by (auto simp: process_316_def simp del: field.simps)
  with b r show "handler_part000_316 env req' = handler_part000_316 env req"
    by (simp add: handler_part000_316_def with_log_def respond_def)
qed

theorem empty_string_as_missing_witness:
  "handler_notify_5 sample_env
     (post_json (JObj [(''kind'', JStr ''contact''), (''name'', JStr []),
                       (''email'', JStr ''jane@x.com'')])) =
     \<lparr>status = 400,
      reply = Some (JObj [(''success'', JBool False), (''error'', JStr ''Invalid request body'')]),
      sent = [], logged = []\<rparr>
   \<and> handler_notify_5 sample_env
       (post_json (JObj [(''kind'', JStr ''contact''), (''email'', JStr ''jane@x.com'')])) =
     handler_notify_5 sample_env
       (post_json (JObj [(''kind'', JStr ''contact''), (''name'', JStr []),
                         (''email'', JStr ''jane@x.com'')]))
   \<and> handler_part000_316 sample_env
       (post_form [(''kind'', JArr [JStr ''contact'']), (''email'', JArr [JStr []])] NoUpload) =
     \<lparr>status = 400,
      reply = Some (JObj [(''success'', JBool False),
                          (''error'', JStr ''Missing required fields'')]),
      sent = [], logged = []\<rparr>
   \<and> handler_part000_316 sample_env
       (post_form [(''kind'', JArr [JStr ''contact''])] NoUpload) =
     handler_part000_316 sample_env
       (post_form [(''kind'', JArr [JStr ''contact'']), (''email'', JArr [JStr []])] NoUpload)"
proof -
  let ?kvs5 = "[(''kind'', JStr ''contact''), (''name'', JStr []),
                (''email'', JStr ''jane@x.com'')]"
  let ?kvs = "[(''kind'', JStr ''contact''), (''email'', JStr [])]"
  let ?req = "post_form [(''kind'', JArr [JStr ''contact'']), (''email'', JArr [JStr []])] NoUpload"
  let ?req' = "post_form [(''kind'', JArr [JStr ''contact''])] NoUpload"
  have n: "normalize_316 sample_env ?req = Inr (JObj ?kvs, None, [])"
    by (simp add: normalize_316_def post_form_def getContentType_def flatten_fields_def
        first_value_def first_or_single_def)
  have n': "normalize_316 sample_env ?req' =
              Inr (JObj (filter (\<lambda>p. fst p \<noteq> ''email'') ?kvs), None, [])"
    by (simp add: normalize_316_def post_form_def getContentType_def flatten_fields_def
        first_value_def first_or_single_def)
  have a: "handler_notify_5 sample_env (post_json (JObj ?kvs5)) =
      \<lparr>status = 400,
       reply = Some (JObj [(''success'', JBool False), (''error'', JStr ''Invalid request body'')]),
       sent = [], logged = []\<rparr>
     \<and> handler_notify_5 sample_env
         ((post_json (JObj ?kvs5))\<lparr>body := JObj (filter (\<lambda>p. fst p \<noteq> ''name'') ?kvs5)\<rparr>) =
       handler_notify_5 sample_env (post_json (JObj ?kvs5))"
    using empty_string_as_missing [of "post_json (JObj ?kvs5)" ?kvs5 "''name''" sample_env]
    by (simp add: post_json_def)
  have b: "handler_part000_316 sample_env ?req =
      \<lparr>status = 400,
       reply = Some (JObj [(''success'', JBool False),
                           (''error'', JStr ''Missing required fields'')]),
       sent = [], logged = []\<rparr>
     \<and> handler_part000_316 sample_env ?req' = handler_part000_316 sample_env ?req"
    using empty_string_as_missing [of ?req ?kvs "''email''" sample_env None "[]"] n n'
    by (simp add: post_form_def)
  from a b show ?thesis by (simp add: post_json_def)
qed

section \<open>Newlines in free text\<close>

text \<open>
  Claim C3. In the handler of part\_000, line 30, every free-text value (the message of
  a contact, the brief and the references of a quote) is rendered as \<open>nl2br (esc v)\<close>:
  escaped first, the newlines of the escaped text replaced afterwards. Position by
  position this is the text of the value with each newline replaced by \<open><br>\<close> and each
  other character by its escaped form, and it contains no newline. For a POST request
  that passes the CAPTCHA check and the required-field check, and whose values all
  convert to text, the theorem gives the whole HTML of the mail that is sent: it is the
  template with this text in the paragraph of the field, and the value occurs nowhere
  else in it, so no newline of the body comes from the value.
\<close>

theorem free_text_breaks:
  assumes "http_method req = ''POST''" and "b = or_else (body req) (JObj [])"
    and "verify_recaptcha env b = None"
  shows \<open>(\<forall>v. printable v \<and> safe_numbers v \<longrightarrow>
            nl2br (esc v) =
              concat (map (\<lambda>c. if c = CHR 0x0A then ''<br>'' else esc_char c)
                (toString (if v = JUndefined then JStr [] else v)))
            \<and> CHR 0x0A \<notin> set (nl2br (esc v)))
       \<and> (field b ''kind'' = JStr ''contact'' \<and> truthy (field b ''name'')
            \<and> truthy (field b ''email'') \<and> truthy (field b ''message'')
            \<and> list_all printable (contact_converted b)
            \<and> list_all safe_numbers (contact_converted b) \<longrightarrow>
           map html (sent (handler_part000_30 env req)) =
             [''\<newline>        <h2 style="color:#14276d;margin:0 0 12px">New Contact Message</h2>'' @
              ''\<newline>        <p><b>Name:</b> '' @ esc (field b ''name'') @ ''</p>'' @
              ''\<newline>        <p><b>Email:</b> '' @ esc (field b ''email'') @ ''</p>'' @
              ''\<newline>        <p><b>Phone:</b> '' @
                esc (or_else (field b ''phone'') (JStr ''N/A'')) @ ''</p>'' @
              ''\<newline>        <p><b>Message:</b><br>'' @
                nl2br (esc (field b ''message'')) @ ''</p>'' @
              ''\<newline>        '' @
                (if truthy (field b ''submittedAt'')
                 then ''<p style="color:#666"><small>Submitted: '' @
                      esc (field b ''submittedAt'') @ ''</small></p>''
                 else []) @
              ''\<newline>      ''])
       \<and> (field b ''kind'' = JStr ''quote'' \<and> list_all printable (quote_converted b)
            \<and> list_all safe_numbers (quote_converted b) \<longrightarrow>
           map html (sent (handler_part000_30 env req)) =
             [''\<newline>        <h2 style="color:#14276d;margin:0 0 12px">New Quote Request</h2>'' @
              ''\<newline>        <p><b>Name:</b> '' @ esc (field b ''fullName'') @ ''</p>'' @
              ''\<newline>        <p><b>Email:</b> '' @ esc (field b ''email'') @ ''</p>'' @
              ''\<newline>        <p><b>Phone:</b> '' @
                esc (or_else (field b ''phone'') (JStr [])) @ ''</p>'' @
              ''\<newline>        '' @
                (if truthy (field b ''company'')
                 then ''<p><b>Company:</b> '' @ esc (field b ''company'') @ ''</p>'' else []) @
              ''\<newline>        <p><b>Category:</b> '' @ esc (field b ''category'') @
                '' '' @ emdash @ '' <b>Service:</b> '' @ esc (field b ''service'') @ ''</p>'' @
              ''\<newline>        '' @
                (if truthy (field b ''budget'')
                 then ''<p><b>Budget:</b> '' @ esc (field b ''budget'') @ ''</p>'' else []) @
              ''\<newline>        '' @
                (if truthy (field b ''timeline'')
                 then ''<p><b>Timeline:</b> '' @ esc (field b ''timeline'') @ ''</p>'' else []) @
              ''\<newline>        <p><b>Brief:</b><br>'' @
                nl2br (esc (or_else (field b ''brief'') (JStr []))) @ ''</p>'' @
              ''\<newline>        '' @
                (case field b ''goals'' of
                   JArr xs \<Rightarrow>
                     if xs \<noteq> []
                     then ''<p><b>Goals:</b> '' @ join '', '' (map esc xs) @ ''</p>''
                     else []
                 | _ \<Rightarrow> []) @
              ''\<newline>        '' @
                (if truthy (field b ''references'')
                 then ''<p><b>References:</b><br>'' @
                      nl2br (esc (field b ''references'')) @ ''</p>''
                 else []) @
              ''\<newline>        '' @
                (if truthy (field b ''submittedAt'')
                 then ''<p style="color:#666"><small>Submitted: '' @
                      esc (field b ''submittedAt'') @ ''</small></p>''
                 else []) @
              ''\<newline>      ''])\<close>
proof (intro conjI impI allI)
  fix v
  show "nl2br (esc v) =
      concat (map (\<lambda>c. if c = CHR 0x0A then ''<br>'' else esc_char c)
        (toString (if v = JUndefined then JStr [] else v)))"
    unfolding esc_def by (rule nl2br_concat_esc)
  show "CHR 0x0A \<notin> set (nl2br (esc v))"
    by (rule no_newline_after_nl2br)
next
  assume "field b ''kind'' = JStr ''contact'' \<and> truthy (field b ''name'')
            \<and> truthy (field b ''email'') \<and> truthy (field b ''message'')
            \<and> list_all printable (contact_converted b)
            \<and> list_all safe_numbers (contact_converted b)"
  then have "sent (handler_part000_30 env req) =
      [\<lparr>subject = contact_subject b, html = contact_html b, attachments = []\<rparr>]"
    by (intro sent_contact_30 [OF assms]) blast+
  then have "map html (sent (handler_part000_30 env req)) = [contact_html b]"
    by simp
  then show \<open>map html (sent (handler_part000_30 env req)) =
             [''\<newline>        <h2 style="color:#14276d;margin:0 0 12px">New Contact Message</h2>'' @
              ''\<newline>        <p><b>Name:</b> '' @ esc (field b ''name'') @ ''</p>'' @
              ''\<newline>        <p><b>Email:</b> '' @ esc (field b ''email'') @ ''</p>'' @
              ''\<newline>        <p><b>Phone:</b> '' @
                esc (or_else (field b ''phone'') (JStr ''N/A'')) @ ''</p>'' @
              ''\<newline>        <p><b>Message:</b><br>'' @
                nl2br (esc (field b ''message'')) @ ''</p>'' @
              ''\<newline>        '' @
                (if truthy (field b ''submittedAt'')
                 then ''<p style="color:#666"><small>Submitted: '' @
                      esc (field b ''submittedAt'') @ ''</small></p>''
                 else []) @
              ''\<newline>      '']\<close>
    by (simp add: contact_html_def submitted_line_def)
next
  assume "field b ''kind'' = JStr ''quote'' \<and> list_all printable (quote_converted b)
            \<and> list_all safe_numbers (quote_converted b)"
  then have "sent (handler_part000_30 env req) =
      [\<lparr>subject = quote_subject b, html = quote_html b, attachments = []\<rparr>]"
    by (intro sent_quote_30 [OF assms]) blast+
  then have "map html (sent (handler_part000_30 env req)) = [quote_html b]"
    by simp
  then show \<open>map html (sent (handler_part000_30 env req)) =
             [''\<newline>        <h2 style="color:#14276d;margin:0 0 12px">New Quote Request</h2>'' @
              ''\<newline>        <p><b>Name:</b> '' @ esc (field b ''fullName'') @ ''</p>'' @
              ''\<newline>        <p><b>Email:</b> '' @ esc (field b ''email'') @ ''</p>'' @
              ''\<newline>        <p><b>Phone:</b> '' @
                esc (or_else (field b ''phone'') (JStr [])) @ ''</p>'' @
              ''\<newline>        '' @
                (if truthy (field b ''company'')
                 then ''<p><b>Company:</b> '' @ esc (field b ''company'') @ ''</p>'' else []) @
              ''\<newline>        <p><b>Category:</b> '' @ esc (field b ''category'') @
                '' '' @ emdash @ '' <b>Service:</b> '' @ esc (field b ''service'') @ ''</p>'' @
              ''\<newline>        '' @
                (if truthy (field b ''budget'')
                 then ''<p><b>Budget:</b> '' @ esc (field b ''budget'') @ ''</p>'' else []) @
              ''\<newline>        '' @
                (if truthy (field b ''timeline'')
                 then ''<p><b>Timeline:</b> '' @ esc (field b ''timeline'') @ ''</p>'' else []) @
              ''\<newline>        <p><b>Brief:</b><br>'' @
                nl2br (esc (or_else (field b ''brief'') (JStr []))) @ ''</p>'' @
              ''\<newline>        '' @
                (case field b ''goals'' of
                   JArr xs \<Rightarrow>
                     if xs \<noteq> []
                     then ''<p><b>Goals:</b> '' @ join '', '' (map esc xs) @ ''</p>''
                     else []
                 | _ \<Rightarrow> []) @
              ''\<newline>        '' @
                (if truthy (field b ''references'')
                 then ''<p><b>References:</b><br>'' @
                      nl2br (esc (field b ''references'')) @ ''</p>''
                 else []) @
              ''\<newline>        '' @
                (if truthy (field b ''submittedAt'')
                 then ''<p style="color:#666"><small>Submitted: '' @
                      esc (field b ''submittedAt'') @ ''</small></p>''
                 else []) @
              ''\<newline>      '']\<close>
    by (simp add: quote_html_def submitted_line_def goals_line_def)
qed

theorem free_text_breaks_witness:
  \<open>nl2br (esc (JStr ''Hello\<newline>World'')) = ''Hello<br>World''
   \<and> map html (sent (handler_part000_30 sample_env
        (post_json (JObj [(''kind'', JStr ''contact''), (''name'', JStr ''Jane Doe''),
           (''email'', JStr ''jane@x.com''), (''message'', JStr ''Hello\<newline>World'')])))) =
       [''\<newline>        <h2 style="color:#14276d;margin:0 0 12px">New Contact Message</h2>'' @
        ''\<newline>        <p><b>Name:</b> Jane Doe</p>'' @
        ''\<newline>        <p><b>Email:</b> jane@x.com</p>'' @
        ''\<newline>        <p><b>Phone:</b> N/A</p>'' @
        ''\<newline>        <p><b>Message:</b><br>Hello<br>World</p>'' @
        ''\<newline>        '' @
        ''\<newline>      '']
   \<and> map html (sent (handler_part000_30 sample_env
        (post_json (JObj [(''kind'', JStr ''quote''), (''fullName'', JStr ''Acme Co''),
           (''email'', JStr ''a@acme.com''), (''category'', JStr ''Web''),
           (''service'', JStr ''Design''), (''brief'', JStr ''<b>test</b>\<newline>two''),
           (''references'', JStr ''a.com\<newline>b.com'')])))) =
       [''\<newline>        <h2 style="color:#14276d;margin:0 0 12px">New Quote Request</h2>'' @
        ''\<newline>        <p><b>Name:</b> Acme Co</p>'' @
        ''\<newline>        <p><b>Email:</b> a@acme.com</p>'' @
        ''\<newline>        <p><b>Phone:</b> </p>'' @
        ''\<newline>        '' @
        ''\<newline>        <p><b>Category:</b> Web '' @ emdash @ '' <b>Service:</b> Design</p>'' @
        ''\<newline>        '' @
        ''\<newline>        '' @
        ''\<newline>        <p><b>Brief:</b><br>&lt;b&gt;test&lt;/b&gt;<br>two</p>'' @
        ''\<newline>        '' @
        ''\<newline>        <p><b>References:</b><br>a.com<br>b.com</p>'' @
        ''\<newline>        '' @
        ''\<newline>      '']\<close>
proof -
  let ?c = "JObj [(''kind'', JStr ''contact''), (''name'', JStr ''Jane Doe''),
             (''email'', JStr ''jane@x.com''), (''message'', JStr ''Hello\<newline>World'')]"
  let ?q = "JObj [(''kind'', JStr ''quote''), (''fullName'', JStr ''Acme Co''),
             (''email'', JStr ''a@acme.com''), (''category'', JStr ''Web''),
             (''service'', JStr ''Design''), (''brief'', JStr ''<b>test</b>\<newline>two''),
             (''references'', JStr ''a.com\<newline>b.com'')]"
  have m: "http_method (post_json ?c) = ''POST''" "http_method (post_json ?q) = ''POST''"
    by (simp_all add: post_json_def)
  have b: "?c = or_else (body (post_json ?c)) (JObj [])"
    "?q = or_else (body (post_json ?q)) (JObj [])"
    by (simp_all add: post_json_def or_else_def)
  have v: "verify_recaptcha sample_env ?c = None" "verify_recaptcha sample_env ?q = None"
    by (simp_all add: verify_recaptcha_def sample_env_def)
  have p: "list_all printable (contact_converted ?c)" "list_all printable (quote_converted ?q)"
    "list_all safe_numbers (contact_converted ?c)" "list_all safe_numbers (quote_converted ?q)"
    by (simp_all add: contact_converted_def quote_converted_def or_else_def)
  note c = free_text_breaks [OF m(1) b(1) v(1)]
  note q = free_text_breaks [OF m(2) b(2) v(2)]
  have e: "nl2br (esc (JStr ''Hello\<newline>World'')) = ''Hello<br>World''"
    by (simp add: esc_eval esc_char_cases nl2br_def)
  from c p(1,3) have 1: \<open>map html (sent (handler_part000_30 sample_env (post_json ?c))) =
       [''\<newline>        <h2 style="color:#14276d;margin:0 0 12px">New Contact Message</h2>'' @
        ''\<newline>        <p><b>Name:</b> Jane Doe</p>'' @
        ''\<newline>        <p><b>Email:</b> jane@x.com</p>'' @
        ''\<newline>        <p><b>Phone:</b> N/A</p>'' @
        ''\<newline>        <p><b>Message:</b><br>Hello<br>World</p>'' @
        ''\<newline>        '' @
        ''\<newline>      '']\<close>
    by (simp add: esc_def esc_char_cases nl2br_def or_else_def)
  from q p(2,4) have 2: \<open>map html (sent (handler_part000_30 sample_env (post_json ?q))) =
       [''\<newline>        <h2 style="color:#14276d;margin:0 0 12px">New Quote Request</h2>'' @
        ''\<newline>        <p><b>Name:</b> Acme Co</p>'' @
        ''\<newline>        <p><b>Email:</b> a@acme.com</p>'' @
        ''\<newline>        <p><b>Phone:</b> </p>'' @
        ''\<newline>        '' @
        ''\<newline>        <p><b>Category:</b> Web '' @ emdash @ '' <b>Service:</b> Design</p>'' @
        ''\<newline>        '' @
        ''\<newline>        '' @
        ''\<newline>        <p><b>Brief:</b><br>&lt;b&gt;test&lt;/b&gt;<br>two</p>'' @
        ''\<newline>        '' @
        ''\<newline>        <p><b>References:</b><br>a.com<br>b.com</p>'' @
        ''\<newline>        '' @
        ''\<newline>      '']\<close>
    by (simp add: esc_def esc_char_cases nl2br_def or_else_def)
  from e 1 2 show ?thesis by (intro conjI)
qed

section \<open>The subject of a quote\<close>

text \<open>
  Claim C7 says that the subject of a quote is a fixed prefix followed by the escaped
  category, the escaped service and the escaped sender name. The handler of part\_000,
  line 30 interpolates the three values as they are, without \<open>esc\<close>: for the category
  \<open>R&D\<close> the subject holds \<open>R&D\<close>, and the escaped \<open>R&amp;D\<close> occurs nowhere in it.
\<close>

theorem quote_subject_counterexample:
  "map subject (sent (handler_part000_30 sample_env
     (post_json (JObj [(''kind'', JStr ''quote''), (''fullName'', JStr ''Acme Co''),
        (''email'', JStr ''a@acme.com''), (''category'', JStr ''R&D''),
        (''service'', JStr ''Design''), (''brief'', JStr ''<b>test</b>'')])))) =
     [receipt_icon @ '' New Quote '' @ emdash @ '' R&D / Design '' @ emdash @ '' Acme Co'']
   \<and> esc (JStr ''R&D'') = ''R&amp;D''
   \<and> \<not> sublist (esc (JStr ''R&D''))
         (receipt_icon @ '' New Quote '' @ emdash @ '' R&D / Design '' @ emdash @ '' Acme Co'')"
proof (intro conjI)
  let ?q = "JObj [(''kind'', JStr ''quote''), (''fullName'', JStr ''Acme Co''),
        (''email'', JStr ''a@acme.com''), (''category'', JStr ''R&D''),
        (''service'', JStr ''Design''), (''brief'', JStr ''<b>test</b>'')]"
  have "sent (handler_part000_30 sample_env (post_json ?q)) =
      [\<lparr>subject = quote_subject ?q, html = quote_html ?q, attachments = []\<rparr>]"
    by (rule sent_quote_30)
      (simp_all add: post_json_def or_else_def verify_recaptcha_def sample_env_def
        quote_converted_def)
  then show "map subject (sent (handler_part000_30 sample_env (post_json ?q))) =
     [receipt_icon @ '' New Quote '' @ emdash @ '' R&D / Design '' @ emdash @ '' Acme Co'']"
    by (simp add: quote_subject_def)
  show e: "esc (JStr ''R&D'') = ''R&amp;D''"
    by (simp add: esc_eval esc_char_cases)
  show "\<not> sublist (esc (JStr ''R&D''))
         (receipt_icon @ '' New Quote '' @ emdash @ '' R&D / Design '' @ emdash @ '' Acme Co'')"
    unfolding e by (simp add: receipt_icon_def emdash_def sublist_Cons_right)
qed

text \<open>
  Claim C7, amended. For every quote that the handler of part\_000, line 30 hands to the
  transport (a POST request of kind \<open>quote\<close> that passes the CAPTCHA check and whose
  values all convert to text), the subject is the fixed prefix, the category, \<open>/\<close>, the
  service, a dash and the sender's full name, each value as plain text (\<open>String\<close> of the
  field, not escaped): for the category \<open>Web\<close>, the service \<open>Design\<close> and the full name
  \<open>Acme Co\<close> it is the prefix followed by \<open>Web / Design\<close>, the dash and \<open>Acme Co\<close>.
\<close>

theorem quote_subject_plain:
  assumes "http_method req = ''POST''" and "b = or_else (body req) (JObj [])"
    and "field b ''kind'' = JStr ''quote''"
    and "verify_recaptcha env b = None"
    and "list_all printable (quote_converted b)"
    and "list_all safe_numbers [field b ''category'', field b ''service'', field b ''fullName'']"
  shows "map subject (sent (handler_part000_30 env req)) =
           [receipt_icon @ '' New Quote '' @ emdash @ '' '' @ toString (field b ''category'')
              @ '' / '' @ toString (field b ''service'')
              @ '' '' @ emdash @ '' '' @ toString (field b ''fullName'')]
         \<and> (\<forall>c s n. field b ''category'' = JStr c \<and> field b ''service'' = JStr s
                \<and> field b ''fullName'' = JStr n \<longrightarrow>
              map subject (sent (handler_part000_30 env req)) =
                [receipt_icon @ '' New Quote '' @ emdash @ '' '' @ c @ '' / '' @ s
                   @ '' '' @ emdash @ '' '' @ n])"
proof -
  have "sent (handler_part000_30 env req) =
      [\<lparr>subject = quote_subject b, html = quote_html b, attachments = []\<rparr>]"
    by (rule sent_quote_30 [OF assms(1,2,4,3,5)])
  then have "map subject (sent (handler_part000_30 env req)) =
           [receipt_icon @ '' New Quote '' @ emdash @ '' '' @ toString (field b ''category'')
              @ '' / '' @ toString (field b ''service'')
              @ '' '' @ emdash @ '' '' @ toString (field b ''fullName'')]"
    by (simp add: quote_subject_def)
  then show ?thesis by simp
qed

theorem quote_subject_plain_witness:
  "map subject (sent (handler_part000_30 sample_env
     (post_json (JObj [(''kind'', JStr ''quote''), (''fullName'', JStr ''Acme Co''),
        (''email'', JStr ''a@acme.com''), (''category'', JStr ''Web''),
        (''service'', JStr ''Design''), (''brief'', JStr ''<b>test</b>'')])))) =
     [receipt_icon @ '' New Quote '' @ emdash @ '' Web / Design '' @ emdash @ '' Acme Co'']"
proof -
  let ?q = "JObj [(''kind'', JStr ''quote''), (''fullName'', JStr ''Acme Co''),
        (''email'', JStr ''a@acme.com''), (''category'', JStr ''Web''),
        (''service'', JStr ''Design''), (''brief'', JStr ''<b>test</b>'')]"
  have "map subject (sent (handler_part000_30 sample_env (post_json ?q))) =
           [receipt_icon @ '' New Quote '' @ emdash @ '' '' @ toString (field ?q ''category'')
              @ '' / '' @ toString (field ?q ''service'')
              @ '' '' @ emdash @ '' '' @ toString (field ?q ''fullName'')]
         \<and> (\<forall>c s n. field ?q ''category'' = JStr c \<and> field ?q ''service'' = JStr s
                \<and> field ?q ''fullName'' = JStr n \<longrightarrow>
              map subject (sent (handler_part000_30 sample_env (post_json ?q))) =
                [receipt_icon @ '' New Quote '' @ emdash @ '' '' @ c @ '' / '' @ s
                   @ '' '' @ emdash @ '' '' @ n])"
    by (rule quote_subject_plain [where b = ?q])
      (simp_all add: post_json_def or_else_def verify_recaptcha_def sample_env_def
        quote_converted_def)
  then show ?thesis by simp
qed

section \<open>Kinds other than contact and quote\<close>

text \<open>
  Claim C5 says that a request with an unknown, non-empty kind is processed as a
  contact. The handler of part\_000, line 30 rejects it: for the kind \<open>feedback\<close> the
  answer is status 400, \<open>Unknown kind\<close>, and nothing is sent.
\<close>

theorem unknown_kind_counterexample:
  "handler_part000_30 sample_env
     (post_json (JObj [(''kind'', JStr ''feedback''), (''name'', JStr ''Jane Doe''),
        (''email'', JStr ''jane@x.com''), (''message'', JStr ''Hello'')])) =
     \<lparr>status = 400, reply = Some (JObj [(''error'', JStr ''Unknown kind'')]),
      sent = [], logged = []\<rparr>"
  by (simp add: handler_part000_30_def post_json_def or_else_def verify_recaptcha_def
      sample_env_def respond_def)

text \<open>
  Claim C5, amended. The handler of notify.ts, line 5 treats the kind \<open>quote\<close> as a quote
  and every other non-empty kind as a contact: for a POST request with a name and an
  email whose values convert to text, the subject and the heading of the mail it sends
  are those of a quote request for \<open>quote\<close> and those of a contact message otherwise.
  The handler of part\_000, line 30 accepts the kinds \<open>contact\<close> and \<open>quote\<close> only: once
  the CAPTCHA check lets the request pass, any other non-empty kind is answered with
  status 400 and \<open>Unknown kind\<close>, and nothing is sent.
\<close>

theorem kind_classification:
  assumes "http_method req = ''POST''" and "b = or_else (body req) (JObj [])"
    and "truthy (field b ''kind'')"
  shows "(truthy (field b ''name'') \<and> truthy (field b ''email'')
            \<and> list_all printable (converted_notify_5 b) \<longrightarrow>
          (\<exists>rest. sent (handler_notify_5 env req) =
             [\<lparr>subject = (if field b ''kind'' = JStr ''quote'' then ''New Quote Request''
                          else ''New Contact Message''),
               html = ''\<newline>      <h2>New ''
                 @ (if field b ''kind'' = JStr ''quote'' then ''Quote Request''
                    else ''Contact Message'') @ ''</h2>'' @ rest,
               attachments = []\<rparr>]))
       \<and> (verify_recaptcha env b = None \<and> field b ''kind'' \<noteq> JStr ''contact''
            \<and> field b ''kind'' \<noteq> JStr ''quote'' \<longrightarrow>
          handler_part000_30 env req =
            \<lparr>status = 400, reply = Some (JObj [(''error'', JStr ''Unknown kind'')]),
             sent = [], logged = []\<rparr>)"
proof (intro conjI impI)
  assume "truthy (field b ''name'') \<and> truthy (field b ''email'')
            \<and> list_all printable (converted_notify_5 b)"
  then have "sent (handler_notify_5 env req) =
      [\<lparr>subject = plain_subject b, html = html_notify_5 b, attachments = []\<rparr>]"
    by (intro sent_notify_5 [OF assms]) blast+
  then show "\<exists>rest. sent (handler_notify_5 env req) =
             [\<lparr>subject = (if field b ''kind'' = JStr ''quote'' then ''New Quote Request''
                          else ''New Contact Message''),
               html = ''\<newline>      <h2>New ''
                 @ (if field b ''kind'' = JStr ''quote'' then ''Quote Request''
                    else ''Contact Message'') @ ''</h2>'' @ rest,
               attachments = []\<rparr>]"
    unfolding plain_subject_def html_notify_5_def kind_title_def by blast
next
  assume "verify_recaptcha env b = None \<and> field b ''kind'' \<noteq> JStr ''contact''
            \<and> field b ''kind'' \<noteq> JStr ''quote''"
  with assms show "handler_part000_30 env req =
            \<lparr>status = 400, reply = Some (JObj [(''error'', JStr ''Unknown kind'')]),
             sent = [], logged = []\<rparr>"
    by (simp add: handler_part000_30_def Let_def respond_def)
qed

theorem kind_classification_witness:
  "(\<exists>rest. sent (handler_notify_5 sample_env
       (post_json (JObj [(''kind'', JStr ''survey''), (''name'', JStr ''Jane Doe''),
          (''email'', JStr ''jane@x.com'')]))) =
       [\<lparr>subject = ''New Contact Message'',
         html = ''\<newline>      <h2>New Contact Message</h2>'' @ rest, attachments = []\<rparr>])
   \<and> (\<exists>rest. sent (handler_notify_5 sample_env
       (post_json (JObj [(''kind'', JStr ''quote''), (''name'', JStr ''Acme Co''),
          (''email'', JStr ''a@acme.com'')]))) =
       [\<lparr>subject = ''New Quote Request'',
         html = ''\<newline>      <h2>New Quote Request</h2>'' @ rest, attachments = []\<rparr>])
   \<and> handler_part000_30 sample_env
       (post_json (JObj [(''kind'', JStr ''survey''), (''name'', JStr ''Jane Doe''),
          (''email'', JStr ''jane@x.com'')])) =
       \<lparr>status = 400, reply = Some (JObj [(''error'', JStr ''Unknown kind'')]),
        sent = [], logged = []\<rparr>"
proof -
  let ?s = "JObj [(''kind'', JStr ''survey''), (''name'', JStr ''Jane Doe''),
          (''email'', JStr ''jane@x.com'')]"
  let ?q = "JObj [(''kind'', JStr ''quote''), (''name'', JStr ''Acme Co''),
          (''email'', JStr ''a@acme.com'')]"
  have m: "http_method (post_json ?s) = ''POST''" "http_method (post_json ?q) = ''POST''"
    by (simp_all add: post_json_def)
  have b: "?s = or_else (body (post_json ?s)) (JObj [])"
    "?q = or_else (body (post_json ?q)) (JObj [])"
    by (simp_all add: post_json_def or_else_def)
  have k: "truthy (field ?s ''kind'')" "truthy (field ?q ''kind'')"
    by simp_all
  have v: "verify_recaptcha sample_env ?s = None"
    by (simp add: verify_recaptcha_def sample_env_def)
  note s = kind_classification [OF m(1) b(1) k(1), of sample_env]
  note q = kind_classification [OF m(2) b(2) k(2), of sample_env]
  have p: "list_all printable (converted_notify_5 ?s)"
    "list_all printable (converted_notify_5 ?q)"
    by (simp_all add: converted_notify_5_def or_else_def)
  from s p(1) have 1: "\<exists>rest. sent (handler_notify_5 sample_env (post_json ?s)) =
       [\<lparr>subject = ''New Contact Message'',
         html = ''\<newline>      <h2>New Contact Message</h2>'' @ rest, attachments = []\<rparr>]"
    by simp
  from q p(2) have 2: "\<exists>rest. sent (handler_notify_5 sample_env (post_json ?q)) =
       [\<lparr>subject = ''New Quote Request'',
         html = ''\<newline>      <h2>New Quote Request</h2>'' @ rest, attachments = []\<rparr>]"
    by simp
  from s v have 3: "handler_part000_30 sample_env (post_json ?s) =
       \<lparr>status = 400, reply = Some (JObj [(''error'', JStr ''Unknown kind'')]),
        sent = [], logged = []\<rparr>"
    by simp
  from 1 2 3 show ?thesis by (intro conjI)
qed

section \<open>Escaping of user-supplied values\<close>

text \<open>
  Claim C1 says that every user-supplied value is HTML-escaped before it is embedded in
  the HTML body. The handler of part\_000, line 30 passes every value through \<open>esc\<close>,
  whose result holds none of \<open><\<close>, \<open>>\<close>, the double and the single quote (lemma
  \<open>esc_no_markup\<close>). The handler of notify.ts, line 5 interpolates the values as they are:
  for the name \<open><script>alert(1)</script>\<close> the HTML of the mail it sends holds that
  markup unescaped, where \<open>esc\<close> gives \<open>&lt;script&gt;alert(1)&lt;/script&gt;\<close>.
\<close>

theorem notify_5_embeds_markup:
  "map html (sent (handler_notify_5 sample_env
     (post_json (JObj [(''kind'', JStr ''contact''),
        (''name'', JStr ''<script>alert(1)</script>''), (''email'', JStr ''a@b.c'')])))) =
     [''\<newline>      <h2>New Contact Message</h2>'' @
      ''\<newline>      <p><strong>Name:</strong> <script>alert(1)</script></p>'' @
      ''\<newline>      <p><strong>Email:</strong> a@b.c</p>'' @
      ''\<newline>      <p><strong>Phone:</strong> N/A</p>'' @
      ''\<newline>      <p><strong>Message:</strong><br/>(No message provided)</p>'' @
      ''\<newline>    '']
   \<and> esc (JStr ''<script>alert(1)</script>'') = ''&lt;script&gt;alert(1)&lt;/script&gt;''"
proof
  let ?b = "JObj [(''kind'', JStr ''contact''),
        (''name'', JStr ''<script>alert(1)</script>''), (''email'', JStr ''a@b.c'')]"
  have "sent (handler_notify_5 sample_env (post_json ?b)) =
      [\<lparr>subject = plain_subject ?b, html = html_notify_5 ?b, attachments = []\<rparr>]"
    by (rule sent_notify_5)
      (simp_all add: post_json_def or_else_def converted_notify_5_def)
  then show "map html (sent (handler_notify_5 sample_env (post_json ?b))) =
     [''\<newline>      <h2>New Contact Message</h2>'' @
      ''\<newline>      <p><strong>Name:</strong> <script>alert(1)</script></p>'' @
      ''\<newline>      <p><strong>Email:</strong> a@b.c</p>'' @
      ''\<newline>      <p><strong>Phone:</strong> N/A</p>'' @
      ''\<newline>      <p><strong>Message:</strong><br/>(No message provided)</p>'' @
      ''\<newline>    '']"
    by (simp add: html_notify_5_def kind_title_def or_else_def)
  show "esc (JStr ''<script>alert(1)</script>'') = ''&lt;script&gt;alert(1)&lt;/script&gt;''"
    by (simp add: esc_eval esc_char_cases)
qed

theorem notify_5_embeds_markup_witness:
  "\<exists>pre post. map html (sent (handler_notify_5 sample_env
     (post_json (JObj [(''kind'', JStr ''contact''),
        (''name'', JStr ''<script>alert(1)</script>''), (''email'', JStr ''a@b.c'')])))) =
     [pre @ ''<script>alert(1)</script>'' @ post]"
proof -
  have "\<exists>pre post.
      ''\<newline>      <h2>New Contact Message</h2>'' @
      ''\<newline>      <p><strong>Name:</strong> <script>alert(1)</script></p>'' @
      ''\<newline>      <p><strong>Email:</strong> a@b.c</p>'' @
      ''\<newline>      <p><strong>Phone:</strong> N/A</p>'' @
      ''\<newline>      <p><strong>Message:</strong><br/>(No message provided)</p>'' @
      ''\<newline>    '' = pre @ ''<script>alert(1)</script>'' @ post"
    by (rule exI [of _ "''\<newline>      <h2>New Contact Message</h2>'' @
      ''\<newline>      <p><strong>Name:</strong> ''"],
        rule exI [of _ "''</p>'' @
      ''\<newline>      <p><strong>Email:</strong> a@b.c</p>'' @
      ''\<newline>      <p><strong>Phone:</strong> N/A</p>'' @
      ''\<newline>      <p><strong>Message:</strong><br/>(No message provided)</p>'' @
      ''\<newline>    ''"]) simp
  with notify_5_embeds_markup show ?thesis
    by (simp only: list.inject simp_thms)
qed

section \<open>A goals field with several values\<close>

text \<open>
  Claim C4 says that the multipart normalization keeps the goals field as a list, and
  that the renderer joins it with commas. The normalization of notify.ts, lines 83 to
  86 (and of part\_000, lines 337 to 339) takes the first value of every field, goals
  included: for the goals \<open>seo\<close> and \<open>ads\<close> the body holds the string \<open>seo\<close>, and the mail
  of the handler of notify.ts, line 68 shows \<open>seo\<close> alone, although its renderer would
  join an array into \<open>seo, ads\<close>.
\<close>

theorem goals_collapse_to_first:
  "flatten_fields [(''goals'', JArr [JStr ''seo'', JStr ''ads''])] = JObj [(''goals'', JStr ''seo'')]
   \<and> goals_text (JArr [JStr ''seo'', JStr ''ads'']) = ''seo, ads''
   \<and> (\<exists>pre post. map html (sent (handler_notify_68 sample_env
         (post_form [(''kind'', JArr [JStr ''quote'']), (''name'', JArr [JStr ''Acme Co'']),
            (''email'', JArr [JStr ''a@acme.com'']),
            (''goals'', JArr [JStr ''seo'', JStr ''ads''])] NoUpload))) =
         [pre @ ''\<newline>        <p><strong>Goals:</strong> seo</p>'' @ post])
   \<and> normalize_316 sample_env
         (post_form [(''kind'', JArr [JStr ''quote'']), (''email'', JArr [JStr ''a@acme.com'']),
            (''goals'', JArr [JStr ''seo'', JStr ''ads''])] NoUpload) =
       Inr (JObj [(''kind'', JStr ''quote''), (''email'', JStr ''a@acme.com''),
                  (''goals'', JStr ''seo'')], None, [])"
proof (intro conjI)
  let ?f = "[(''kind'', JArr [JStr ''quote'']), (''name'', JArr [JStr ''Acme Co'']),
            (''email'', JArr [JStr ''a@acme.com'']),
            (''goals'', JArr [JStr ''seo'', JStr ''ads''])]"
  let ?b = "JObj [(''kind'', JStr ''quote''), (''name'', JStr ''Acme Co''),
            (''email'', JStr ''a@acme.com''), (''goals'', JStr ''seo'')]"
  show "flatten_fields [(''goals'', JArr [JStr ''seo'', JStr ''ads''])] =
      JObj [(''goals'', JStr ''seo'')]"
    by (simp add: flatten_fields_def first_value_def)
  show "goals_text (JArr [JStr ''seo'', JStr ''ads'']) = ''seo, ads''"
    by (simp add: goals_text_def join_vals_def)
  have f: "flatten_fields ?f = ?b"
    by (simp add: flatten_fields_def first_value_def)
  have q: "field ?b ''kind'' = JStr ''quote''"
    and br: "optional_br ''body.brief'' (field ?b ''brief'') = Inr JUndefined"
    and pq: "list_all printable (converted_quote_68 ?b)"
    and ph: "list_all printable (converted_head ?b)"
    and ps: "printable (or_else (field ?b ''submittedAt'') (JNum (now sample_env)))"
    by (simp_all add: optional_br_def converted_quote_68_def converted_head_def or_else_def)
  from html_notify_68_goals [OF q pq br ph ps, of None] obtain pre post
    where h: "html_notify_68 sample_env ?b (first_of_array NoUpload) =
           Inr (pre @ ''\<newline>        <p><strong>Goals:</strong> ''
             @ goals_text (field ?b ''goals'') @ ''</p>'' @ post)"
    by (auto simp: first_of_array_def)
  have "sent (handler_notify_68 sample_env (post_form ?f NoUpload)) =
      [\<lparr>subject = plain_subject ?b,
        html = pre @ ''\<newline>        <p><strong>Goals:</strong> ''
             @ goals_text (field ?b ''goals'') @ ''</p>'' @ post,
        attachments = fst (read_attachment_68 sample_env (first_of_array NoUpload))\<rparr>]"
    by (rule sent_notify_68 [where flds = ?f and b = ?b, OF _ _ _ _ _ _ h])
      (simp_all add: post_form_def f)
  then have "map html (sent (handler_notify_68 sample_env (post_form ?f NoUpload))) =
      [pre @ ''\<newline>        <p><strong>Goals:</strong> seo</p>'' @ post]"
    by (simp add: goals_text_def or_else_def)
  then show "\<exists>pre post. map html (sent (handler_notify_68 sample_env (post_form ?f NoUpload))) =
         [pre @ ''\<newline>        <p><strong>Goals:</strong> seo</p>'' @ post]"
    by (intro exI)
  show "normalize_316 sample_env
         (post_form [(''kind'', JArr [JStr ''quote'']), (''email'', JArr [JStr ''a@acme.com'']),
            (''goals'', JArr [JStr ''seo'', JStr ''ads''])] NoUpload) =
       Inr (JObj [(''kind'', JStr ''quote''), (''email'', JStr ''a@acme.com''),
                  (''goals'', JStr ''seo'')], None, [])"
    by (simp add: normalize_316_def post_form_def getContentType_def flatten_fields_def
        first_value_def first_or_single_def)
qed

theorem goals_collapse_to_first_witness:
  "field (flatten_fields [(''goals'', JArr [JStr ''seo'', JStr ''ads''])]) ''goals'' = JStr ''seo''
   \<and> goals_text (field (flatten_fields [(''goals'', JArr [JStr ''seo'', JStr ''ads''])]) ''goals'') =
       ''seo''"
  using goals_collapse_to_first by (simp add: goals_text_def or_else_def)

section \<open>A failing transport\<close>

text \<open>
  Claim C8 says that a failing send is answered with status 500 and an opaque, generic
  message, the error being logged. The handler of part\_000, line 30 does so (lemma
  \<open>deliver_30_opaque\<close>). The handler of notify.ts, line 5 logs the error and answers with
  status 500, but the answer carries the message of the exception: for a relay that
  rejects the login, the caller reads the relay's own words.
\<close>

theorem transport_error_exposed:
  "status (handler_notify_5 failing_env
     (post_json (JObj [(''kind'', JStr ''contact''), (''name'', JStr ''Jane Doe''),
        (''email'', JStr ''jane@x.com''), (''message'', JStr ''Hello'')]))) = 500
   \<and> reply (handler_notify_5 failing_env
     (post_json (JObj [(''kind'', JStr ''contact''), (''name'', JStr ''Jane Doe''),
        (''email'', JStr ''jane@x.com''), (''message'', JStr ''Hello'')]))) =
     Some (JObj [(''success'', JBool False),
       (''error'', JStr ''Invalid login: 535-5.7.8 Username and Password not accepted'')])
   \<and> logged (handler_notify_5 failing_env
     (post_json (JObj [(''kind'', JStr ''contact''), (''name'', JStr ''Jane Doe''),
        (''email'', JStr ''jane@x.com''), (''message'', JStr ''Hello'')]))) =
     [ConsoleError (cross_icon @ '' Email sending error:'')
        (Error ''Invalid login: 535-5.7.8 Username and Password not accepted'')]
   \<and> reply (handler_part000_30 failing_env
     (post_json (JObj [(''kind'', JStr ''contact''), (''name'', JStr ''Jane Doe''),
        (''email'', JStr ''jane@x.com''), (''message'', JStr ''Hello'')]))) =
     Some (JObj [(''success'', JBool False), (''error'', JStr ''Failed to send email'')])"
  by (simp add: handler_notify_5_def handler_part000_30_def deliver_30_def Let_def
      post_json_def or_else_def failing_env_def sample_env_def verify_recaptcha_def
      caught_5_def caught_30_def converted_notify_5_def contact_converted_def)

theorem transport_error_exposed_witness:
  "\<exists>r. reply (handler_notify_5 failing_env
     (post_json (JObj [(''kind'', JStr ''contact''), (''name'', JStr ''Jane Doe''),
        (''email'', JStr ''jane@x.com''), (''message'', JStr ''Hello'')]))) = Some r
     \<and> field r ''error'' =
         JStr ''Invalid login: 535-5.7.8 Username and Password not accepted''"
  using transport_error_exposed by simp

end
